theory Spec2Isabelle
  imports Complex_Main
begin

section \<open>Python values of the web layer (src/src/autoforge/web_app.py)\<close>

text \<open>
  Exceptions are values. \<open>External\<close> stands for whatever a library call outside
  \<^verbatim>\<open>web_app.py\<close> raises (torch, cv2, socketio, the autoforge helpers); its
  argument is the message \<^verbatim>\<open>str(e)\<close> gives. \<open>ConfigError\<close> is the error the
  specification names for an invalid parameter; nothing in \<^verbatim>\<open>web_app.py\<close> raises it.
\<close>

datatype exn =
    Exception string
  | ZeroDivisionError string
  | IndexError string
  | KeyError string
  | ConfigError string
  | External string

fun str :: "exn \<Rightarrow> string" where
  "str (Exception m) = m"
| "str (ZeroDivisionError m) = m"
| "str (IndexError m) = m"
| "str (KeyError k) = [CHR 0x27] @ k @ [CHR 0x27]"
| "str (ConfigError m) = m"
| "str (External m) = m"

text \<open>\<^verbatim>\<open>d.get(key, default)\<close> on a key that may be absent.\<close>

definition dict_get :: "'a option \<Rightarrow> 'a \<Rightarrow> 'a" where
  "dict_get v dflt = (case v of None \<Rightarrow> dflt | Some x \<Rightarrow> x)"

text \<open>\<^verbatim>\<open>xs[i]\<close> for a non-negative index: IndexError out of range.\<close>

definition item :: "'a list \<Rightarrow> nat \<Rightarrow> exn + 'a" where
  "item xs i = (if i < length xs then Inr (xs ! i)
                else Inl (IndexError ''list index out of range''))"

text \<open>
  \<^verbatim>\<open>s.rsplit(sep, 1)\<close>: at most one split, at the last occurrence of the
  separator; a string without the separator comes back as the only element.
\<close>

definition rsplit1 :: "char \<Rightarrow> string \<Rightarrow> string list" where
  "rsplit1 sep s =
     (if sep \<in> set s
      then [rev (tl (dropWhile (\<lambda>c. c \<noteq> sep) (rev s))), rev (takeWhile (\<lambda>c. c \<noteq> sep) (rev s))]
      else [s])"

text \<open>
  \<^verbatim>\<open>str.lower()\<close> on the ASCII letters; every other byte is left as it is (no
  character outside ASCII lowers to a letter of the extensions below).
\<close>

definition lower_char :: "char \<Rightarrow> char" where
  "lower_char c =
     (case map_of (zip ''ABCDEFGHIJKLMNOPQRSTUVWXYZ'' ''abcdefghijklmnopqrstuvwxyz'') c of
        None \<Rightarrow> c
      | Some d \<Rightarrow> d)"

definition lower :: "string \<Rightarrow> string" where
  "lower s = map lower_char s"

section \<open>Allowed file extensions\<close>

definition ALLOWED_EXTENSIONS :: "string set" where
  "ALLOWED_EXTENSIONS = {''png'', ''jpg'', ''jpeg'', ''bmp'', ''webp''}"

definition ALLOWED_MATERIAL_EXTENSIONS :: "string set" where
  "ALLOWED_MATERIAL_EXTENSIONS = {''csv'', ''json''}"

text \<open>
  \<^verbatim>\<open>return '.' in filename and filename.rsplit('.', 1)[1].lower() in allowed_exts\<close>
\<close>

definition allowed_file :: "string \<Rightarrow> string set \<Rightarrow> exn + bool" where
  "allowed_file filename allowed_exts =
     (if CHR ''.'' \<in> set filename
      then (case item (rsplit1 CHR ''.'' filename) 1 of
              Inl e \<Rightarrow> Inl e
            | Inr ext \<Rightarrow> Inr (lower ext \<in> allowed_exts))
      else Inr False)"

section \<open>The job registry\<close>

text \<open>
  The request fields and the parameter dictionary carry values of the types of their
  defaults (integers as \<open>int\<close>, floats as \<open>real\<close>); a JSON body with a value of
  another type is outside this model.
\<close>

record params =
  iterations :: int
  learning_rate :: real
  layer_height :: real
  max_layers :: int
  min_layers :: int
  background_height :: real
  background_color :: string
  stl_output_size :: int
  processing_reduction_factor :: int
  nozzle_diameter :: real
  init_tau :: real
  final_tau :: real
  warmup_fraction :: real
  learning_rate_warmup_fraction :: real
  num_init_rounds :: int
  num_init_cluster_layers :: int
  early_stopping :: int
  perform_pruning :: bool
  pruning_max_colors :: int
  pruning_max_swaps :: int
  visualize :: bool
  tensorboard :: bool

record outputs =
  discretized_image :: string
  stl_file :: string
  swap_instructions :: string
  project_file :: "string option"

text \<open>
  One entry of \<^verbatim>\<open>active_jobs\<close>. The keys written at upload are plain fields; the
  keys added later (\<^verbatim>\<open>params\<close>, \<^verbatim>\<open>cancelled\<close>, \<^verbatim>\<open>iteration\<close>,
  \<^verbatim>\<open>outputs\<close>, \<^verbatim>\<open>error\<close>) are \<open>None\<close> while absent. The keys
  \<^verbatim>\<open>id\<close>, \<^verbatim>\<open>params\<close>, \<^verbatim>\<open>iteration\<close> and \<^verbatim>\<open>outputs\<close> are the
  fields \<open>job_id\<close>, \<open>job_params\<close>, \<open>job_iteration\<close> and \<open>job_outputs\<close>.
\<close>

record job =
  job_id :: string
  status :: string
  progress :: int
  image_path :: string
  material_path :: string
  created_at :: real
  job_params :: "params option"
  cancelled :: "bool option"
  job_iteration :: "int option"
  job_outputs :: "outputs option"
  error :: "string option"

type_synonym registry = "string \<rightharpoonup> job"

datatype body =
    ErrorBody string
  | JobMessage string string
  | MessageBody string
  | StatusBody string string int "outputs option" "string option"

type_synonym response = "body \<times> nat"

section \<open>/api/upload\<close>

record file_storage =
  filename :: string
  content :: "nat list"

text \<open>
  What \<^verbatim>\<open>upload_files\<close> takes from outside: the fresh \<^verbatim>\<open>uuid.uuid4()\<close>, the
  clock, the upload folder, werkzeug's \<^verbatim>\<open>secure_filename\<close> and the result of
  \<^verbatim>\<open>FileStorage.save\<close> (\<open>Some e\<close> when it raises).
\<close>

record upload_env =
  uuid4 :: string
  time_now :: real
  UPLOAD_FOLDER :: string
  secure_filename :: "string \<Rightarrow> string"
  save :: "file_storage \<Rightarrow> string \<Rightarrow> exn option"

definition path_join :: "string \<Rightarrow> string \<Rightarrow> string" where
  "path_join folder name = folder @ ''/'' @ name"

text \<open>
  The result is the response, or the exception that leaves the handler, and the
  registry afterwards. \<open>files\<close> is \<^verbatim>\<open>request.files\<close>.
\<close>

definition upload_files ::
  "upload_env \<Rightarrow> (string \<rightharpoonup> file_storage) \<Rightarrow> registry \<Rightarrow> (exn + response) \<times> registry" where
  "upload_files env files active_jobs =
     (case (files ''image'', files ''materials'') of
        (Some image_file, Some material_file) \<Rightarrow>
          if filename image_file = [] \<or> filename material_file = []
          then (Inr (ErrorBody ''No files selected'', 400), active_jobs)
          else
            (case allowed_file (filename image_file) ALLOWED_EXTENSIONS of
               Inl e \<Rightarrow> (Inl e, active_jobs)
             | Inr False \<Rightarrow> (Inr (ErrorBody ''Invalid image file type'', 400), active_jobs)
             | Inr True \<Rightarrow>
                 (case allowed_file (filename material_file) ALLOWED_MATERIAL_EXTENSIONS of
                    Inl e \<Rightarrow> (Inl e, active_jobs)
                  | Inr False \<Rightarrow>
                      (Inr (ErrorBody ''Invalid material file type'', 400), active_jobs)
                  | Inr True \<Rightarrow>
                      (let jid = uuid4 env;
                           image_filename = secure_filename env (filename image_file);
                           material_filename = secure_filename env (filename material_file);
                           ipath = path_join (UPLOAD_FOLDER env) (jid @ ''_'' @ image_filename);
                           mpath = path_join (UPLOAD_FOLDER env) (jid @ ''_'' @ material_filename)
                       in case save env image_file ipath of
                            Some e \<Rightarrow> (Inl e, active_jobs)
                          | None \<Rightarrow>
                              (case save env material_file mpath of
                                 Some e \<Rightarrow> (Inl e, active_jobs)
                               | None \<Rightarrow>
                                   (Inr (JobMessage jid ''Files uploaded successfully'', 200),
                                    active_jobs(jid \<mapsto>
                                      \<lparr>job_id = jid, status = ''uploaded'', progress = 0,
                                       image_path = ipath, material_path = mpath,
                                       created_at = time_now env, job_params = None,
                                       cancelled = None, job_iteration = None,
                                       job_outputs = None, error = None\<rparr>))))))
      | _ \<Rightarrow> (Inr (ErrorBody ''Missing required files'', 400), active_jobs))"

section \<open>/api/start, /api/status, /api/cancel\<close>

text \<open>
  \<^verbatim>\<open>request.json\<close> of \<^verbatim>\<open>/api/start\<close>: every key may be absent.
\<close>

record start_data =
  d_job_id :: "string option"
  d_iterations :: "int option"
  d_learning_rate :: "real option"
  d_layer_height :: "real option"
  d_max_layers :: "int option"
  d_min_layers :: "int option"
  d_background_height :: "real option"
  d_background_color :: "string option"
  d_stl_output_size :: "int option"
  d_processing_reduction_factor :: "int option"
  d_nozzle_diameter :: "real option"
  d_init_tau :: "real option"
  d_final_tau :: "real option"
  d_warmup_fraction :: "real option"
  d_learning_rate_warmup_fraction :: "real option"
  d_num_init_rounds :: "int option"
  d_num_init_cluster_layers :: "int option"
  d_early_stopping :: "int option"
  d_perform_pruning :: "bool option"
  d_pruning_max_colors :: "int option"
  d_pruning_max_swaps :: "int option"

definition build_params :: "start_data \<Rightarrow> params" where
  "build_params data =
     \<lparr>iterations = dict_get (d_iterations data) 2000,
      learning_rate = dict_get (d_learning_rate data) (15 / 1000),
      layer_height = dict_get (d_layer_height data) (4 / 100),
      max_layers = dict_get (d_max_layers data) 75,
      min_layers = dict_get (d_min_layers data) 0,
      background_height = dict_get (d_background_height data) (24 / 100),
      background_color = dict_get (d_background_color data) ''#000000'',
      stl_output_size = dict_get (d_stl_output_size data) 150,
      processing_reduction_factor = dict_get (d_processing_reduction_factor data) 2,
      nozzle_diameter = dict_get (d_nozzle_diameter data) (4 / 10),
      init_tau = dict_get (d_init_tau data) 1,
      final_tau = dict_get (d_final_tau data) (1 / 100),
      warmup_fraction = dict_get (d_warmup_fraction data) 1,
      learning_rate_warmup_fraction = dict_get (d_learning_rate_warmup_fraction data) (1 / 100),
      num_init_rounds = dict_get (d_num_init_rounds data) 8,
      num_init_cluster_layers = dict_get (d_num_init_cluster_layers data) (- 1),
      early_stopping = dict_get (d_early_stopping data) 2000,
      perform_pruning = dict_get (d_perform_pruning data) False,
      pruning_max_colors = dict_get (d_pruning_max_colors data) 8,
      pruning_max_swaps = dict_get (d_pruning_max_swaps data) 20,
      visualize = False,
      tensorboard = False\<rparr>"

text \<open>The arguments of the background thread \<^verbatim>\<open>start_optimization\<close> starts.\<close>

record thread_args =
  t_job_id :: string
  t_image_path :: string
  t_material_file :: string
  t_params :: params

text \<open>
  The result is the response, the registry afterwards and the thread started, if any.
  The handler does not write \<^verbatim>\<open>status\<close>: the thread does, as its first statement.
\<close>

definition start_optimization ::
  "start_data \<Rightarrow> registry \<Rightarrow> response \<times> registry \<times> thread_args option" where
  "start_optimization data active_jobs =
     (case d_job_id data of
        None \<Rightarrow> ((ErrorBody ''Invalid job ID'', 400), active_jobs, None)
      | Some jid \<Rightarrow>
          if jid = [] then ((ErrorBody ''Invalid job ID'', 400), active_jobs, None)
          else
            (case active_jobs jid of
               None \<Rightarrow> ((ErrorBody ''Invalid job ID'', 400), active_jobs, None)
             | Some j \<Rightarrow>
                 if status j \<noteq> ''uploaded''
                 then ((ErrorBody ''Job already started or completed'', 400), active_jobs, None)
                 else
                   (let ps = build_params data;
                        j' = j\<lparr>job_params := Some ps\<rparr>
                    in ((JobMessage jid ''Optimization started'', 200),
                        active_jobs(jid \<mapsto> j'),
                        Some \<lparr>t_job_id = jid, t_image_path = image_path j',
                              t_material_file = material_path j', t_params = ps\<rparr>))))"

definition get_status :: "string \<Rightarrow> registry \<Rightarrow> response" where
  "get_status jid active_jobs =
     (case active_jobs jid of
        None \<Rightarrow> (ErrorBody ''Job not found'', 404)
      | Some j \<Rightarrow> (StatusBody jid (status j) (progress j) (job_outputs j) (error j), 200))"

definition cancel_job :: "string \<Rightarrow> registry \<Rightarrow> response \<times> registry" where
  "cancel_job jid active_jobs =
     (case active_jobs jid of
        None \<Rightarrow> ((ErrorBody ''Job not found'', 404), active_jobs)
      | Some j \<Rightarrow>
          ((MessageBody ''Job cancelled'', 200),
           active_jobs(jid \<mapsto> j\<lparr>cancelled := Some True, status := ''cancelled''\<rparr>)))"

section \<open>The background thread: collaborators outside web_app.py\<close>

text \<open>
  Tensors and images are lists of their values over the reals; shapes, the dtype and
  float32 rounding are not modelled.
\<close>

type_synonym image = "real list"

record materials =
  colors :: "real list list"
  TDs :: "real list"
  names :: "string list"

datatype device = Cuda | Cpu

record progress_data =
  pd_job_id :: string
  pd_iteration :: int
  pd_total_iterations :: int
  pd_progress :: int
  pd_loss :: real
  pd_preview :: "string option"

text \<open>
  What the thread makes visible: the \<^verbatim>\<open>socketio.emit\<close> calls by event name, and
  \<^verbatim>\<open>print\<close>.
\<close>

datatype event =
    JobStarted string
  | StatusMsg string string
  | Progress progress_data
  | JobCompleted string outputs
  | JobFailed string string
  | Print string

record init_result =
  pixel_height_logits_init :: "real list"
  pixel_height_labels :: "int list"
  global_logits_init :: "real list"

text \<open>The positional arguments of \<^verbatim>\<open>run_init_threads\<close>, in order.\<close>

record init_args =
  ia_target :: image
  ia_material_colors :: "real list list"
  ia_material_TDs :: "real list"
  ia_background :: "real list"
  ia_max_layers :: int
  ia_layer_height :: real
  ia_background_height :: real
  ia_num_init_rounds :: int
  ia_num_init_cluster_layers :: int

text \<open>The keyword arguments of the \<^verbatim>\<open>FilamentOptimizer\<close> constructor.\<close>

record optimizer_args =
  oa_args :: params
  oa_target :: image
  oa_init :: init_result
  oa_material_colors :: "real list list"
  oa_material_TDs :: "real list"
  oa_background :: "real list"
  oa_device :: device
  oa_perception_loss_device :: device

text \<open>
  Everything the thread calls that is not in \<^verbatim>\<open>web_app.py\<close>, as parameters:
  \<open>'o\<close> is the optimizer object. A call that can raise returns a sum (\<open>Inl\<close> the
  exception) or \<open>Some\<close> exception. \<open>clock i\<close> is what \<^verbatim>\<open>time.time()\<close>
  returns inside the callback of iteration \<open>i\<close>; \<open>pct\<close> is the float expression
  \<^verbatim>\<open>int((iteration / total_iterations) * 100)\<close> for a non-zero total;
  \<open>cancel_before i\<close> says that another thread has served \<^verbatim>\<open>/api/cancel\<close> for
  this job since the previous poll of the flag and before the poll of iteration \<open>i\<close>
  (for \<open>i\<close> the number of iterations: after the last poll).
\<close>

record 'o run_env =
  cuda_is_available :: bool
  load_materials_csv :: "string \<Rightarrow> exn + materials"
  load_materials_json :: "string \<Rightarrow> exn + materials"
  imread :: "string \<Rightarrow> exn + image"
  resize_image :: "image \<Rightarrow> int \<Rightarrow> int \<Rightarrow> exn + image"
  hex_to_rgb :: "string \<Rightarrow> exn + real list"
  run_init_threads :: "init_args \<Rightarrow> exn + init_result"
  PerceptionLoss :: "device \<Rightarrow> exn option"
  FilamentOptimizer :: "optimizer_args \<Rightarrow> exn + 'o"
  step :: "'o \<Rightarrow> exn + ('o \<times> real)"
  get_preview :: "'o \<Rightarrow> exn + image"
  imencode :: "image \<Rightarrow> exn + string"
  emit :: "event \<Rightarrow> exn option"
  clock :: "nat \<Rightarrow> real"
  pct :: "int \<Rightarrow> int \<Rightarrow> int"
  cancel_before :: "nat \<Rightarrow> bool"
  save_discretized :: "'o \<Rightarrow> string \<Rightarrow> exn option"
  generate_stl :: "'o \<Rightarrow> string \<Rightarrow> int \<Rightarrow> real \<Rightarrow> exn option"
  write_swap_instructions :: "'o \<Rightarrow> string list \<Rightarrow> real \<Rightarrow> real \<Rightarrow> exn option"
  generate_project_file :: "'o \<Rightarrow> materials \<Rightarrow> real \<Rightarrow> real \<Rightarrow> int \<Rightarrow> exn option"
  project_path_exists :: "string \<Rightarrow> bool"

text \<open>The shared registry and what has been emitted and printed so far.\<close>

record world =
  jobs :: registry
  out :: "event list"

definition emit_ev :: "'o run_env \<Rightarrow> event \<Rightarrow> world \<Rightarrow> exn option \<times> world" where
  "emit_ev env ev w =
     (case emit env ev of
        Some e \<Rightarrow> (Some e, w)
      | None \<Rightarrow> (None, w\<lparr>out := out w @ [ev]\<rparr>))"

definition print_line :: "string \<Rightarrow> world \<Rightarrow> world" where
  "print_line s w = w\<lparr>out := out w @ [Print s]\<rparr>"

text \<open>\<^verbatim>\<open>active_jobs[job_id][...] = ...\<close>: KeyError when the job is not there.\<close>

definition set_job :: "string \<Rightarrow> (job \<Rightarrow> job) \<Rightarrow> world \<Rightarrow> exn option \<times> world" where
  "set_job jid f w =
     (case jobs w jid of
        None \<Rightarrow> (Some (KeyError jid), w)
      | Some j \<Rightarrow> (None, w\<lparr>jobs := (jobs w)(jid \<mapsto> f j)\<rparr>))"

section \<open>ProgressCallback\<close>

record progress_callback =
  cb_job_id :: string
  last_update :: real
  update_interval :: real

definition ProgressCallback :: "string \<Rightarrow> progress_callback" where
  "ProgressCallback jid = \<lparr>cb_job_id = jid, last_update = 0, update_interval = 1 / 2\<rparr>"

text \<open>The preview branch: \<^verbatim>\<open>cv2.imencode\<close> and base64 are one external call.\<close>

definition attach_preview ::
  "'o run_env \<Rightarrow> image option \<Rightarrow> progress_data \<Rightarrow> exn + progress_data" where
  "attach_preview env preview_image pd =
     (case preview_image of
        None \<Rightarrow> Inr pd
      | Some img \<Rightarrow>
          (case imencode env img of
             Inl e \<Rightarrow> Inl e
           | Inr img_base64 \<Rightarrow>
               Inr (pd\<lparr>pd_preview := Some (''data:image/jpeg;base64,'' @ img_base64)\<rparr>)))"

text \<open>
  \<^verbatim>\<open>ProgressCallback.update\<close>; \<open>current_time\<close> is the value \<^verbatim>\<open>time.time()\<close>
  returned. The result is the exception raised, if any, the callback object and the
  world afterwards.
\<close>

definition update ::
  "'o run_env \<Rightarrow> real \<Rightarrow> progress_callback \<Rightarrow> int \<Rightarrow> int \<Rightarrow> real \<Rightarrow> image option \<Rightarrow> world
     \<Rightarrow> exn option \<times> progress_callback \<times> world" where
  "update env current_time self iteration total_iterations loss preview_image w =
     (if current_time - last_update self < update_interval self \<and> iteration < total_iterations - 1
      then (None, self, w)
      else
        (let self' = self\<lparr>last_update := current_time\<rparr> in
         if total_iterations = 0 then (Some (ZeroDivisionError ''division by zero''), self', w)
         else
           (case attach_preview env preview_image
                   \<lparr>pd_job_id = cb_job_id self, pd_iteration = iteration,
                    pd_total_iterations = total_iterations,
                    pd_progress = pct env iteration total_iterations,
                    pd_loss = loss, pd_preview = None\<rparr> of
              Inl e \<Rightarrow> (Some e, self', w)
            | Inr progress_data \<Rightarrow>
                (case emit_ev env (Progress progress_data) w of
                   (Some e, w') \<Rightarrow> (Some e, self', w')
                 | (None, w') \<Rightarrow>
                     (None, self',
                      (case jobs w' (cb_job_id self) of
                         None \<Rightarrow> w'
                       | Some j \<Rightarrow>
                           w'\<lparr>jobs := (jobs w')(cb_job_id self \<mapsto>
                                 j\<lparr>progress := pd_progress progress_data,
                                   job_iteration := Some iteration\<rparr>)\<rparr>))))))"

section \<open>run_autoforge_optimization: loading the inputs\<close>

definition endswith :: "string \<Rightarrow> string \<Rightarrow> bool" where
  "endswith s suffix =
     (length suffix \<le> length s \<and> drop (length s - length suffix) s = suffix)"

text \<open>\<^verbatim>\<open>torch.device('cuda' if torch.cuda.is_available() else 'cpu')\<close>\<close>

definition select_device :: "'o run_env \<Rightarrow> device" where
  "select_device env = (if cuda_is_available env then Cuda else Cpu)"

text \<open>\<^verbatim>\<open>torch.tensor(x, dtype=torch.float32, device=device) / 255.0\<close>\<close>

definition div255 :: "real list \<Rightarrow> real list" where
  "div255 xs = map (\<lambda>x. x / 255) xs"

text \<open>\<^verbatim>\<open>a // b\<close> on integers: floor division, ZeroDivisionError for \<open>b = 0\<close>.\<close>

definition floordiv :: "int \<Rightarrow> int \<Rightarrow> exn + int" where
  "floordiv a b =
     (if b = 0 then Inl (ZeroDivisionError ''integer division or modulo by zero'')
      else Inr (a div b))"

text \<open>What lines 107 to 128 leave in the local variables.\<close>

record inputs =
  in_device :: device
  in_materials :: materials
  material_colors :: "real list list"
  material_TDs :: "real list"
  target_image :: image
  processing_size :: int
  target_tensor :: image
  background_rgb :: "real list"
  background_tensor :: "real list"

definition load_inputs :: "'o run_env \<Rightarrow> string \<Rightarrow> string \<Rightarrow> params \<Rightarrow> exn + inputs" where
  "load_inputs env image_path' material_file p =
     (let dev = select_device env in
      case (if endswith material_file ''.csv'' then load_materials_csv env material_file
            else load_materials_json env material_file) of
        Inl e \<Rightarrow> Inl e
      | Inr ms \<Rightarrow>
          (case imread env image_path' of
             Inl e \<Rightarrow> Inl e
           | Inr img \<Rightarrow>
               (case floordiv (stl_output_size p) (processing_reduction_factor p) of
                  Inl e \<Rightarrow> Inl e
                | Inr psize \<Rightarrow>
                    (case resize_image env img psize psize of
                       Inl e \<Rightarrow> Inl e
                     | Inr resized \<Rightarrow>
                         (case hex_to_rgb env (background_color p) of
                            Inl e \<Rightarrow> Inl e
                          | Inr rgb \<Rightarrow>
                              Inr \<lparr>in_device = dev, in_materials = ms,
                                   material_colors = map div255 (colors ms),
                                   material_TDs = TDs ms,
                                   target_image = resized,
                                   processing_size = psize,
                                   target_tensor = div255 resized,
                                   background_rgb = rgb,
                                   background_tensor = div255 rgb\<rparr>)))))"

text \<open>
  The arguments handed to \<^verbatim>\<open>run_init_threads\<close>: the resized image as read, and
  \<^verbatim>\<open>material_colors.cpu().numpy() * 255\<close>.
\<close>

definition make_init_args :: "inputs \<Rightarrow> params \<Rightarrow> init_args" where
  "make_init_args inp p =
     \<lparr>ia_target = target_image inp,
      ia_material_colors = map (map (\<lambda>x. x * 255)) (material_colors inp),
      ia_material_TDs = material_TDs inp,
      ia_background = background_rgb inp,
      ia_max_layers = max_layers p,
      ia_layer_height = layer_height p,
      ia_background_height = background_height p,
      ia_num_init_rounds = num_init_rounds p,
      ia_num_init_cluster_layers = num_init_cluster_layers p\<rparr>"

definition make_optimizer_args :: "inputs \<Rightarrow> init_result \<Rightarrow> params \<Rightarrow> optimizer_args" where
  "make_optimizer_args inp ini p =
     \<lparr>oa_args = p\<lparr>visualize := False\<rparr>,
      oa_target = target_tensor inp,
      oa_init = ini,
      oa_material_colors = material_colors inp,
      oa_material_TDs = material_TDs inp,
      oa_background = background_tensor inp,
      oa_device = in_device inp,
      oa_perception_loss_device = in_device inp\<rparr>"

text \<open>
  Lines 104 to 175, up to the optimizer object: the result is the exception raised or
  the loaded inputs and the optimizer, and the world afterwards.
\<close>

definition prepare ::
  "'o run_env \<Rightarrow> string \<Rightarrow> string \<Rightarrow> string \<Rightarrow> params \<Rightarrow> world
     \<Rightarrow> (exn + inputs \<times> 'o) \<times> world" where
  "prepare env jid image_path' material_file p w0 =
     (case set_job jid (\<lambda>j. j\<lparr>status := ''running''\<rparr>) w0 of
        (Some e, w) \<Rightarrow> (Inl e, w)
      | (None, w) \<Rightarrow>
     (case emit_ev env (JobStarted jid) w of
        (Some e, w) \<Rightarrow> (Inl e, w)
      | (None, w) \<Rightarrow>
     (case load_inputs env image_path' material_file p of
        Inl e \<Rightarrow> (Inl e, w)
      | Inr inp \<Rightarrow>
     (case emit_ev env (StatusMsg jid ''Initializing height map...'') w of
        (Some e, w) \<Rightarrow> (Inl e, w)
      | (None, w) \<Rightarrow>
     (case run_init_threads env (make_init_args inp p) of
        Inl e \<Rightarrow> (Inl e, w)
      | Inr ini \<Rightarrow>
     (case PerceptionLoss env (in_device inp) of
        Some e \<Rightarrow> (Inl e, w)
      | None \<Rightarrow>
     (case emit_ev env (StatusMsg jid ''Starting optimization...'') w of
        (Some e, w) \<Rightarrow> (Inl e, w)
      | (None, w) \<Rightarrow>
     (case FilamentOptimizer env (make_optimizer_args inp ini p) of
        Inl e \<Rightarrow> (Inl e, w)
      | Inr opt \<Rightarrow> (Inr (inp, opt), w)))))))))"

section \<open>run_autoforge_optimization: the optimization loop\<close>

record 'o loop_state =
  callback :: progress_callback
  optimizer :: 'o
  world :: world

text \<open>
  A cancel request served by another thread before the poll of iteration \<open>i\<close>.
\<close>

definition arrive :: "'o run_env \<Rightarrow> string \<Rightarrow> nat \<Rightarrow> world \<Rightarrow> world" where
  "arrive env jid i w =
     (if cancel_before env i then w\<lparr>jobs := snd (cancel_job jid (jobs w))\<rparr> else w)"

text \<open>
  One pass through the body of \<^verbatim>\<open>for i in range(iterations)\<close>: the poll of the
  flag, \<^verbatim>\<open>optimizer.step()\<close>, and the progress callback with or without a preview.
\<close>

definition iteration_body ::
  "'o run_env \<Rightarrow> string \<Rightarrow> int \<Rightarrow> nat \<Rightarrow> 'o loop_state \<Rightarrow> exn option \<times> 'o loop_state" where
  "iteration_body env jid iters i s =
     (let w = arrive env jid i (world s) in
      case jobs w jid of
        None \<Rightarrow> (Some (KeyError jid), s\<lparr>world := w\<rparr>)
      | Some j \<Rightarrow>
          if dict_get (cancelled j) False
          then (Some (Exception ''Job cancelled by user''), s\<lparr>world := w\<rparr>)
          else
            (case step env (optimizer s) of
               Inl e \<Rightarrow> (Some e, s\<lparr>world := w\<rparr>)
             | Inr (opt, loss) \<Rightarrow>
                 if i mod 50 = 0 \<or> int i = iters - 1
                 then
                   (case get_preview env opt of
                      Inl e \<Rightarrow> (Some e, s\<lparr>optimizer := opt, world := w\<rparr>)
                    | Inr preview_np \<Rightarrow>
                        (case update env (clock env i) (callback s) (int i + 1) iters loss
                                (Some preview_np) w of
                           (r, cb, w') \<Rightarrow>
                             (r, \<lparr>callback = cb, optimizer = opt, world = w'\<rparr>)))
                 else
                   (case update env (clock env i) (callback s) (int i + 1) iters loss None w of
                      (r, cb, w') \<Rightarrow> (r, \<lparr>callback = cb, optimizer = opt, world = w'\<rparr>))))"

function opt_loop ::
  "'o run_env \<Rightarrow> string \<Rightarrow> int \<Rightarrow> nat \<Rightarrow> 'o loop_state \<Rightarrow> exn option \<times> 'o loop_state" where
  "opt_loop env jid iters i s =
     (if int i < iters
      then (case iteration_body env jid iters i s of
              (Some e, s') \<Rightarrow> (Some e, s')
            | (None, s') \<Rightarrow> opt_loop env jid iters (Suc i) s')
      else (None, s))"
  by pat_completeness auto
termination
  by (relation "measure (\<lambda>(env, jid, iters, i, s). nat (iters - int i))") auto

declare opt_loop.simps [simp del]

section \<open>run_autoforge_optimization: outputs, the exception handler, the thread\<close>

text \<open>
  Lines 194 to 266. The files are written by calls outside \<^verbatim>\<open>web_app.py\<close>; the
  project file alone is written under its own \<^verbatim>\<open>try\<close>, whose handler prints.
\<close>

definition finish ::
  "'o run_env \<Rightarrow> string \<Rightarrow> params \<Rightarrow> inputs \<Rightarrow> 'o \<Rightarrow> world \<Rightarrow> exn option \<times> world" where
  "finish env jid p inp opt w0 =
     (case emit_ev env (StatusMsg jid ''Generating outputs...'') w0 of
        (Some e, w) \<Rightarrow> (Some e, w)
      | (None, w) \<Rightarrow>
     (case save_discretized env opt jid of
        Some e \<Rightarrow> (Some e, w)
      | None \<Rightarrow>
     (case emit_ev env (StatusMsg jid ''Generating STL file...'') w of
        (Some e, w) \<Rightarrow> (Some e, w)
      | (None, w) \<Rightarrow>
     (case generate_stl env opt jid (stl_output_size p) (nozzle_diameter p) of
        Some e \<Rightarrow> (Some e, w)
      | None \<Rightarrow>
     (case write_swap_instructions env opt (names (in_materials inp)) (layer_height p)
             (background_height p) of
        Some e \<Rightarrow> (Some e, w)
      | None \<Rightarrow>
     (let w = (case generate_project_file env opt (in_materials inp) (layer_height p)
                      (background_height p) (stl_output_size p) of
                 Some e \<Rightarrow>
                   print_line (''Warning: Could not generate project file: '' @ str e) w
               | None \<Rightarrow> w)
      in case set_job jid
                (\<lambda>j. j\<lparr>status := ''completed'', progress := 100,
                        job_outputs := Some
                          \<lparr>discretized_image = ''discretized.png'',
                           stl_file = ''model.stl'',
                           swap_instructions = ''swap_instructions.txt'',
                           project_file = (if project_path_exists env jid
                                           then Some ''project.json'' else None)\<rparr>\<rparr>) w of
           (Some e, w) \<Rightarrow> (Some e, w)
         | (None, w) \<Rightarrow>
             (case jobs w jid of
                None \<Rightarrow> (Some (KeyError jid), w)
              | Some j \<Rightarrow>
                  (case job_outputs j of
                     None \<Rightarrow> (Some (KeyError ''outputs''), w)
                   | Some outs \<Rightarrow> emit_ev env (JobCompleted jid outs) w))))))))"

text \<open>The body of the \<^verbatim>\<open>try\<close>: \<open>Some e\<close> is the exception that reaches the handler.\<close>

definition try_body ::
  "'o run_env \<Rightarrow> string \<Rightarrow> string \<Rightarrow> string \<Rightarrow> params \<Rightarrow> world \<Rightarrow> exn option \<times> world" where
  "try_body env jid image_path' material_file p w0 =
     (case prepare env jid image_path' material_file p w0 of
        (Inl e, w) \<Rightarrow> (Some e, w)
      | (Inr (inp, opt), w) \<Rightarrow>
          (case opt_loop env jid (iterations p) 0
                  \<lparr>callback = ProgressCallback jid, optimizer = opt, world = w\<rparr> of
             (Some e, s) \<Rightarrow> (Some e, world s)
           | (None, s) \<Rightarrow>
               finish env jid p inp (optimizer s)
                 (arrive env jid (nat (iterations p)) (world s))))"

text \<open>
  \<^verbatim>\<open>except Exception as e\<close>: the traceback text of the printed line is left out.
  \<open>Some e\<close> in the result is an exception that leaves the handler.
\<close>

definition handler :: "'o run_env \<Rightarrow> string \<Rightarrow> exn \<Rightarrow> world \<Rightarrow> exn option \<times> world" where
  "handler env jid e w0 =
     (let error_msg = str e;
          w = print_line (''Error in job '' @ jid @ '': '' @ error_msg) w0
      in case set_job jid (\<lambda>j. j\<lparr>status := ''failed'', error := Some error_msg\<rparr>) w of
           (Some e', w) \<Rightarrow> (Some e', w)
         | (None, w) \<Rightarrow> emit_ev env (JobFailed jid error_msg) w)"

definition run_autoforge_optimization ::
  "'o run_env \<Rightarrow> string \<Rightarrow> string \<Rightarrow> string \<Rightarrow> params \<Rightarrow> world \<Rightarrow> exn option \<times> world" where
  "run_autoforge_optimization env jid image_path' material_file p w0 =
     (case try_body env jid image_path' material_file p w0 of
        (None, w) \<Rightarrow> (None, w)
      | (Some e, w) \<Rightarrow> handler env jid e w)"

section \<open>A concrete environment and a concrete job\<close>

text \<open>
  An environment in which no outside call raises: the optimizer object is the number of
  steps taken, the clock advances one second per iteration. Its parameters are the
  iterations before whose poll a cancel request is served.
\<close>

definition demo_materials :: materials where
  "demo_materials = \<lparr>colors = [[255, 0, 0], [0, 51, 102]], TDs = [1, 1 / 2],
                      names = [''red'', ''blue'']\<rparr>"

definition demo_env :: "(nat \<Rightarrow> bool) \<Rightarrow> nat run_env" where
  "demo_env cancel =
     \<lparr>cuda_is_available = False,
      load_materials_csv = (\<lambda>f. Inr demo_materials),
      load_materials_json = (\<lambda>f. Inr demo_materials),
      imread = (\<lambda>f. Inr [0, 51, 255, 102]),
      resize_image = (\<lambda>img w h. Inr (take (nat (w * h)) img)),
      hex_to_rgb = (\<lambda>h. Inr [0, 0, 0]),
      run_init_threads = (\<lambda>a. Inr \<lparr>pixel_height_logits_init = [], pixel_height_labels = [],
                                   global_logits_init = []\<rparr>),
      PerceptionLoss = (\<lambda>d. None),
      FilamentOptimizer = (\<lambda>a. Inr 0),
      step = (\<lambda>k. Inr (Suc k, 1 / real (Suc k))),
      get_preview = (\<lambda>k. Inr []),
      imencode = (\<lambda>img. Inr ''AA==''),
      emit = (\<lambda>ev. None),
      clock = (\<lambda>i. real i + 1),
      pct = (\<lambda>a b. a * 100 div b),
      cancel_before = cancel,
      save_discretized = (\<lambda>k d. None),
      generate_stl = (\<lambda>k d sz nz. None),
      write_swap_instructions = (\<lambda>k ns lh bh. None),
      generate_project_file = (\<lambda>k ms lh bh sz. None),
      project_path_exists = (\<lambda>d. True)\<rparr>"

definition demo_job :: job where
  "demo_job =
     \<lparr>job_id = ''j1'', status = ''uploaded'', progress = 0,
      image_path = ''up/j1_a.png'', material_path = ''up/j1_m.csv'',
      created_at = 0, job_params = None, cancelled = None, job_iteration = None,
      job_outputs = None, error = None\<rparr>"

definition demo_jobs :: registry where
  "demo_jobs = [''j1'' \<mapsto> demo_job]"

definition demo_data :: start_data where
  "demo_data =
     \<lparr>d_job_id = Some ''j1'', d_iterations = Some 3, d_learning_rate = None,
      d_layer_height = None, d_max_layers = Some 5, d_min_layers = Some 10,
      d_background_height = None, d_background_color = None,
      d_stl_output_size = Some 4, d_processing_reduction_factor = None,
      d_nozzle_diameter = None, d_init_tau = None, d_final_tau = None,
      d_warmup_fraction = None, d_learning_rate_warmup_fraction = None,
      d_num_init_rounds = None, d_num_init_cluster_layers = None,
      d_early_stopping = None, d_perform_pruning = None,
      d_pruning_max_colors = None, d_pruning_max_swaps = None\<rparr>"

definition demo_world :: world where
  "demo_world = \<lparr>jobs = fst (snd (start_optimization demo_data demo_jobs)), out = []\<rparr>"

definition demo_upload_env :: upload_env where
  "demo_upload_env =
     \<lparr>uuid4 = ''j2'', time_now = 0, UPLOAD_FOLDER = ''up'',
      secure_filename = (\<lambda>s. s), save = (\<lambda>f path. None)\<rparr>"

definition demo_files :: "string \<Rightarrow> string \<rightharpoonup> file_storage" where
  "demo_files image_name =
     [''image'' \<mapsto> \<lparr>filename = image_name, content = [137, 80]\<rparr>,
      ''materials'' \<mapsto> \<lparr>filename = ''filaments.csv'', content = [110]\<rparr>]"

definition demo_state :: "nat \<Rightarrow> nat loop_state" where
  "demo_state k = \<lparr>callback = ProgressCallback ''j1'', optimizer = k, world = demo_world\<rparr>"

text \<open>The same environment with an encoder that raises on every preview.\<close>

definition demo_env_bad_encoder :: "nat run_env" where
  "demo_env_bad_encoder =
     (demo_env (\<lambda>i. False))\<lparr>imencode := (\<lambda>img. Inl (External ''could not encode the preview''))\<rparr>"

section \<open>The properties, in the words of the specification\<close>

text \<open>
  A file name has an allowed extension when it contains a dot and the text after its
  last dot, lowered, is in the allowed set.
\<close>

definition has_allowed_extension :: "string set \<Rightarrow> string \<Rightarrow> bool" where
  "has_allowed_extension exts name \<longleftrightarrow>
     (\<exists>base ext. name = base @ ''.'' @ ext \<and> CHR ''.'' \<notin> set ext \<and> lower ext \<in> exts)"

text \<open>
  Both files are present, both have a non-empty name, and both names have an allowed
  extension of their kind.
\<close>

definition upload_acceptable :: "(string \<rightharpoonup> file_storage) \<Rightarrow> bool" where
  "upload_acceptable files \<longleftrightarrow>
     (\<exists>img mat. files ''image'' = Some img \<and> files ''materials'' = Some mat
        \<and> filename img \<noteq> [] \<and> filename mat \<noteq> []
        \<and> has_allowed_extension ALLOWED_EXTENSIONS (filename img)
        \<and> has_allowed_extension ALLOWED_MATERIAL_EXTENSIONS (filename mat))"

text \<open>
  Modelled from the spec: the configuration check of the optimization core. The core
  (\<^verbatim>\<open>FilamentOptimizer\<close>, \<^verbatim>\<open>autoforge.Modules.Optimizer\<close>) is not among the source
  files; the error taxonomy of the specification has a \<^verbatim>\<open>ConfigError\<close> for an invalid
  or out-of-range parameter and names \<open>min_layers > max_layers\<close>.
\<close>

definition check_config :: "params \<Rightarrow> exn option" where
  "check_config p =
     (if min_layers p > max_layers p then Some (ConfigError ''min_layers > max_layers'')
      else None)"

text \<open>
  Modelled from the spec: an environment whose \<^verbatim>\<open>FilamentOptimizer\<close> constructor makes
  that check on the arguments it is given before anything else. The constructor is the
  one call into the core before the loop that is handed both values
  (\<^verbatim>\<open>run_init_threads\<close> gets \<open>max_layers\<close> only).
\<close>

definition with_config_check :: "'o run_env \<Rightarrow> 'o run_env" where
  "with_config_check env =
     env\<lparr>FilamentOptimizer :=
           (\<lambda>a. case check_config (oa_args a) of
                  Some e \<Rightarrow> Inl e
                | None \<Rightarrow> FilamentOptimizer env a)\<rparr>"

text \<open>The request names a job of the registry whose status is \<^verbatim>\<open>uploaded\<close>.\<close>

definition names_uploaded_job :: "start_data \<Rightarrow> registry \<Rightarrow> bool" where
  "names_uploaded_job data active_jobs \<longleftrightarrow>
     (\<exists>jid j. d_job_id data = Some jid \<and> active_jobs jid = Some j \<and> status j = ''uploaded'')"

text \<open>
  The cancellation flag of the job reads true at the poll of iteration \<open>i\<close>: a cancel
  request has been served by then.
\<close>

definition flag_set :: "'o run_env \<Rightarrow> string \<Rightarrow> nat \<Rightarrow> world \<Rightarrow> bool" where
  "flag_set env jid i w \<longleftrightarrow>
     (\<exists>j. jobs (arrive env jid i w) jid = Some j \<and> cancelled j = Some True)"

text \<open>
  The state at the boundary before iteration \<open>k\<close>, when the first \<open>k\<close> passes
  through the loop body have all ended without an exception.
\<close>

fun loop_prefix ::
  "'o run_env \<Rightarrow> string \<Rightarrow> int \<Rightarrow> nat \<Rightarrow> 'o loop_state \<Rightarrow> 'o loop_state option" where
  "loop_prefix env jid iters 0 s = Some s"
| "loop_prefix env jid iters (Suc k) s =
     (case loop_prefix env jid iters k s of
        None \<Rightarrow> None
      | Some s' \<Rightarrow>
          (case iteration_body env jid iters k s' of
             (None, s'') \<Rightarrow> Some s''
           | (Some e, s'') \<Rightarrow> None))"

text \<open>
  Exception \<open>e\<close> is raised inside the progress callback of iteration \<open>i\<close>: the poll
  found no cancellation, the step and (where one is taken) the preview succeeded, and
  \<^verbatim>\<open>update\<close> raised \<open>e\<close>, leaving the state \<open>s'\<close>.
\<close>

definition raised_in_callback ::
  "'o run_env \<Rightarrow> string \<Rightarrow> int \<Rightarrow> nat \<Rightarrow> 'o loop_state \<Rightarrow> exn \<Rightarrow> 'o loop_state \<Rightarrow> bool" where
  "raised_in_callback env jid iters i s e s' \<longleftrightarrow>
     (\<exists>j opt loss pv cb w'.
        jobs (arrive env jid i (world s)) jid = Some j
        \<and> \<not> dict_get (cancelled j) False
        \<and> step env (optimizer s) = Inr (opt, loss)
        \<and> (if i mod 50 = 0 \<or> int i = iters - 1
            then \<exists>img. get_preview env opt = Inr img \<and> pv = Some img
            else pv = None)
        \<and> update env (clock env i) (callback s) (int i + 1) iters loss pv
              (arrive env jid i (world s)) = (Some e, cb, w')
        \<and> s' = \<lparr>callback = cb, optimizer = opt, world = w'\<rparr>)"

text \<open>The \<^verbatim>\<open>outputs\<close> entry of a job, as the status endpoint reads it.\<close>

definition outputs_of :: "world \<Rightarrow> string \<Rightarrow> outputs option option" where
  "outputs_of w jid = map_option job_outputs (jobs w jid)"

text \<open>The \<^verbatim>\<open>job_completed\<close> events among those emitted.\<close>

definition completions :: "event list \<Rightarrow> event list" where
  "completions evs = filter (\<lambda>ev. case ev of JobCompleted j outs \<Rightarrow> True | _ \<Rightarrow> False) evs"

text \<open>What a run has printed, in order.\<close>

definition printed :: "event list \<Rightarrow> string list" where
  "printed evs = concat (map (\<lambda>ev. case ev of Print s \<Rightarrow> [s] | _ \<Rightarrow> []) evs)"

text \<open>Values normalized to [0,1], and values on the 0 to 255 scale.\<close>

definition unit_range :: "real list \<Rightarrow> bool" where
  "unit_range xs \<longleftrightarrow> list_all (\<lambda>x. 0 \<le> x \<and> x \<le> 1) xs"

definition byte_range :: "real list \<Rightarrow> bool" where
  "byte_range xs \<longleftrightarrow> list_all (\<lambda>x. 0 \<le> x \<and> x \<le> 255) xs"

section \<open>Evaluation rules\<close>

lemma dict_get_simps: "dict_get None d = d" "dict_get (Some x) d = x"
  by (simp_all add: dict_get_def)

lemmas run_defs =
  run_autoforge_optimization_def try_body_def prepare_def finish_def handler_def
  iteration_body_def update_def attach_preview_def emit_ev_def set_job_def print_line_def
  arrive_def load_inputs_def make_init_args_def make_optimizer_args_def select_device_def
  floordiv_def endswith_def div255_def ProgressCallback_def cancel_job_def dict_get_def
  opt_loop.simps

lemmas demo_defs =
  demo_env_def demo_world_def demo_jobs_def demo_job_def demo_data_def demo_materials_def
  demo_upload_env_def demo_files_def start_optimization_def build_params_def

section \<open>File names and their extensions\<close>

lemma last_dot_split:
  assumes "sep \<in> set s"
  shows "s = rev (tl (dropWhile (\<lambda>c. c \<noteq> sep) (rev s))) @ [sep]
             @ rev (takeWhile (\<lambda>c. c \<noteq> sep) (rev s))"
proof -
  let ?P = "\<lambda>c. c \<noteq> sep"
  have ne: "dropWhile ?P (rev s) \<noteq> []"
    using assms by (simp add: dropWhile_eq_Nil_conv)
  then obtain x rest where d: "dropWhile ?P (rev s) = x # rest"
    by (cases "dropWhile ?P (rev s)") auto
  have "\<not> ?P (hd (dropWhile ?P (rev s)))" using ne by (rule hd_dropWhile)
  with d have x: "x = sep" by simp
  have "rev s = takeWhile ?P (rev s) @ dropWhile ?P (rev s)" by simp
  with d x have "rev s = takeWhile ?P (rev s) @ sep # rest" by simp
  then have "rev (rev s) = rev (takeWhile ?P (rev s) @ sep # rest)" by (rule arg_cong)
  then have "s = rev rest @ [sep] @ rev (takeWhile ?P (rev s))" by simp
  with d show ?thesis by simp
qed

lemma ext_unique:
  assumes "s = base @ [sep] @ ext" and "sep \<notin> set ext"
  shows "rev (takeWhile (\<lambda>c. c \<noteq> sep) (rev s)) = ext"
proof -
  have "rev s = rev ext @ sep # rev base" using assms(1) by simp
  moreover have "takeWhile (\<lambda>c. c \<noteq> sep) (rev ext @ sep # rev base) = rev ext"
    using assms(2) by (auto simp: takeWhile_tail)
  ultimately show ?thesis by simp
qed

lemma rsplit1_item:
  assumes "sep \<in> set s"
  shows "item (rsplit1 sep s) 1 = Inr (rev (takeWhile (\<lambda>c. c \<noteq> sep) (rev s)))"
  using assms by (simp add: rsplit1_def item_def)

lemma allowed_file_iff:
  "allowed_file name exts = Inr (has_allowed_extension exts name)"
proof (cases "CHR ''.'' \<in> set name")
  case True
  let ?ext = "rev (takeWhile (\<lambda>c. c \<noteq> CHR ''.'') (rev name))"
  have a: "allowed_file name exts = Inr (lower ?ext \<in> exts)"
    using True rsplit1_item [of "CHR ''.''" name] by (simp add: allowed_file_def)
  have "has_allowed_extension exts name \<longleftrightarrow> lower ?ext \<in> exts"
  proof
    assume "has_allowed_extension exts name"
    then obtain base ext where e: "name = base @ ''.'' @ ext" "CHR ''.'' \<notin> set ext"
        "lower ext \<in> exts"
      unfolding has_allowed_extension_def by blast
    from ext_unique [OF e(1) e(2)] e(3) show "lower ?ext \<in> exts" by simp
  next
    assume l: "lower ?ext \<in> exts"
    have "CHR ''.'' \<notin> set ?ext"
      by (auto dest: set_takeWhileD)
    with last_dot_split [OF True] l show "has_allowed_extension exts name"
      unfolding has_allowed_extension_def by blast
  qed
  with a show ?thesis by simp
next
  case False
  then have "\<not> has_allowed_extension exts name"
    unfolding has_allowed_extension_def by auto
  with False show ?thesis by (simp add: allowed_file_def)
qed

lemma has_allowed_extension_eval:
  "has_allowed_extension exts name \<longleftrightarrow> allowed_file name exts = Inr True"
  by (simp add: allowed_file_iff)

section \<open>Uploads\<close>

text \<open>
  C10. A job is added to the registry only if both files are present, have a non-empty
  name, and a name whose final extension, lowered, is allowed for its kind; in every
  other case the answer is HTTP 400 and the registry is unchanged. A job that is added
  is the one entry under the fresh id, with status \<^verbatim>\<open>uploaded\<close>.
\<close>

theorem upload_creates_job_only_for_valid_files:
  "(snd (upload_files env files active_jobs) \<noteq> active_jobs \<longrightarrow> upload_acceptable files)
   \<and> (\<not> upload_acceptable files \<longrightarrow>
        (\<exists>msg. upload_files env files active_jobs = (Inr (ErrorBody msg, 400), active_jobs)))
   \<and> (snd (upload_files env files active_jobs) \<noteq> active_jobs \<longrightarrow>
        (\<exists>j. snd (upload_files env files active_jobs) = active_jobs(uuid4 env \<mapsto> j)
             \<and> status j = ''uploaded'' \<and> job_id j = uuid4 env))"
  by (auto simp: upload_files_def upload_acceptable_def allowed_file_iff Let_def
           split: option.splits sum.splits bool.splits if_splits)


theorem upload_creates_job_only_for_valid_files_witness:
  "snd (upload_files demo_upload_env (demo_files ''photo.PNG'') Map.empty) \<noteq> Map.empty
   \<and> upload_acceptable (demo_files ''photo.PNG'')
   \<and> \<not> upload_acceptable (demo_files ''photo.gif'')
   \<and> (\<exists>msg. upload_files demo_upload_env (demo_files ''photo.gif'') Map.empty
               = (Inr (ErrorBody msg, 400), Map.empty))"
proof -
  have ev: "allowed_file ''photo.PNG'' ALLOWED_EXTENSIONS = Inr True"
    "allowed_file ''photo.gif'' ALLOWED_EXTENSIONS = Inr False"
    "allowed_file ''filaments.csv'' ALLOWED_MATERIAL_EXTENSIONS = Inr True"
    by (simp_all add: allowed_file_def item_def rsplit1_def lower_def lower_char_def
          ALLOWED_EXTENSIONS_def ALLOWED_MATERIAL_EXTENSIONS_def)
  have changed:
    "snd (upload_files demo_upload_env (demo_files ''photo.PNG'') Map.empty) \<noteq> Map.empty"
    by (simp add: upload_files_def demo_files_def demo_upload_env_def ev Let_def)
  have bad: "\<not> upload_acceptable (demo_files ''photo.gif'')"
    by (simp add: upload_acceptable_def demo_files_def has_allowed_extension_eval ev)
  from upload_creates_job_only_for_valid_files
         [of demo_upload_env "demo_files ''photo.PNG''" Map.empty]
       upload_creates_job_only_for_valid_files
         [of demo_upload_env "demo_files ''photo.gif''" Map.empty]
       changed bad
  show ?thesis by blast
qed

section \<open>Starting a job\<close>

text \<open>
  The guard of \<^verbatim>\<open>/api/start\<close>: a thread is started only for a job whose status is
  \<^verbatim>\<open>uploaded\<close>; every other request is answered with HTTP 400, the registry is
  left as it was and no thread is started. Once a started thread has run its first
  statement (status \<^verbatim>\<open>running\<close>), every further start request for the job is
  refused.
\<close>

lemma start_only_from_uploaded:
  "(snd (snd (start_optimization data active_jobs)) \<noteq> None \<longrightarrow> names_uploaded_job data active_jobs)
   \<and> (\<not> names_uploaded_job data active_jobs \<longrightarrow>
        (\<exists>msg. start_optimization data active_jobs = ((ErrorBody msg, 400), active_jobs, None)))
   \<and> (\<forall>t w' data'.
        snd (snd (start_optimization data active_jobs)) = Some t
        \<and> set_job (t_job_id t) (\<lambda>j. j\<lparr>status := ''running''\<rparr>)
              \<lparr>jobs = fst (snd (start_optimization data active_jobs)), out = []\<rparr> = (None, w')
        \<and> d_job_id data' = Some (t_job_id t)
        \<longrightarrow> (\<exists>msg. start_optimization data' (jobs w') = ((ErrorBody msg, 400), jobs w', None)))"
proof (intro conjI)
  show "snd (snd (start_optimization data active_jobs)) \<noteq> None \<longrightarrow> names_uploaded_job data active_jobs"
    by (auto simp: start_optimization_def names_uploaded_job_def Let_def
             split: option.splits if_splits)
  show "\<not> names_uploaded_job data active_jobs \<longrightarrow>
        (\<exists>msg. start_optimization data active_jobs = ((ErrorBody msg, 400), active_jobs, None))"
    by (auto simp: start_optimization_def names_uploaded_job_def Let_def
             split: option.splits if_splits)
  show "\<forall>t w' data'.
        snd (snd (start_optimization data active_jobs)) = Some t
        \<and> set_job (t_job_id t) (\<lambda>j. j\<lparr>status := ''running''\<rparr>)
              \<lparr>jobs = fst (snd (start_optimization data active_jobs)), out = []\<rparr> = (None, w')
        \<and> d_job_id data' = Some (t_job_id t)
        \<longrightarrow> (\<exists>msg. start_optimization data' (jobs w') = ((ErrorBody msg, 400), jobs w', None))"
    by (auto simp: start_optimization_def set_job_def Let_def
             split: option.splits if_splits)
qed

lemma start_only_from_uploaded_example:
  "snd (snd (start_optimization demo_data demo_jobs)) \<noteq> None
   \<and> names_uploaded_job demo_data demo_jobs
   \<and> \<not> names_uploaded_job demo_data (jobs (snd (set_job ''j1'' (\<lambda>j. j\<lparr>status := ''running''\<rparr>) demo_world)))
   \<and> (\<exists>msg. start_optimization demo_data
                (jobs (snd (set_job ''j1'' (\<lambda>j. j\<lparr>status := ''running''\<rparr>) demo_world)))
             = ((ErrorBody msg, 400),
                jobs (snd (set_job ''j1'' (\<lambda>j. j\<lparr>status := ''running''\<rparr>) demo_world)), None))"
proof -
  let ?w = "snd (set_job ''j1'' (\<lambda>j. j\<lparr>status := ''running''\<rparr>) demo_world)"
  have launched: "snd (snd (start_optimization demo_data demo_jobs)) \<noteq> None"
    by (simp add: demo_defs dict_get_def Let_def)
  have refused: "\<not> names_uploaded_job demo_data (jobs ?w)"
    by (simp add: names_uploaded_job_def set_job_def demo_defs dict_get_def Let_def)
  from start_only_from_uploaded [of demo_data demo_jobs]
       start_only_from_uploaded [of demo_data "jobs ?w"] launched refused
  show ?thesis by blast
qed

text \<open>
  The handler reads the status and never writes it: after a start that was accepted the
  status is still \<^verbatim>\<open>uploaded\<close>, and the same request on the registry it returned
  gets the same answer and starts a thread again.
\<close>

lemma start_leaves_job_startable:
  assumes "snd (snd (start_optimization data active_jobs)) = Some t"
  shows "start_optimization data (fst (snd (start_optimization data active_jobs)))
           = start_optimization data active_jobs"
    and "\<exists>j. fst (snd (start_optimization data active_jobs)) (t_job_id t) = Some j
             \<and> status j = ''uploaded''"
  using assms
  by (auto simp: start_optimization_def Let_def split: option.splits if_splits)

text \<open>
  C9. Each job can be started at most once: \<^verbatim>\<open>/api/start\<close> starts a thread only
  when the job's status is \<^verbatim>\<open>uploaded\<close>, and otherwise answers HTTP 400 without
  changing the job or starting a thread. The code keeps the second half and misses
  the first: a start request is answered with HTTP 200 and a thread, the job's status is
  \<^verbatim>\<open>uploaded\<close> afterwards, and a second start request that is served before the
  thread has written \<^verbatim>\<open>running\<close> is answered with HTTP 200 and a second thread
  for the same job.
\<close>

theorem second_start_accepted_while_uploaded:
  "start_optimization demo_data demo_jobs
     = ((JobMessage ''j1'' ''Optimization started'', 200),
        demo_jobs(''j1'' \<mapsto> demo_job\<lparr>job_params := Some (build_params demo_data)\<rparr>),
        Some \<lparr>t_job_id = ''j1'', t_image_path = ''up/j1_a.png'',
              t_material_file = ''up/j1_m.csv'', t_params = build_params demo_data\<rparr>)
   \<and> map_option status
        ((demo_jobs(''j1'' \<mapsto> demo_job\<lparr>job_params := Some (build_params demo_data)\<rparr>)) ''j1'')
       = Some ''uploaded''
   \<and> start_optimization demo_data
        (demo_jobs(''j1'' \<mapsto> demo_job\<lparr>job_params := Some (build_params demo_data)\<rparr>))
     = ((JobMessage ''j1'' ''Optimization started'', 200),
        demo_jobs(''j1'' \<mapsto> demo_job\<lparr>job_params := Some (build_params demo_data)\<rparr>),
        Some \<lparr>t_job_id = ''j1'', t_image_path = ''up/j1_a.png'',
              t_material_file = ''up/j1_m.csv'', t_params = build_params demo_data\<rparr>)"
  by (simp add: start_optimization_def demo_jobs_def demo_job_def demo_data_def Let_def)

text \<open>
  \<^verbatim>\<open>start_optimization\<close> itself validates no parameter: every request that names an
  uploaded job is answered with HTTP 200, whatever \<open>min_layers\<close> and \<open>max_layers\<close>
  are; the parameters are stored in the job and handed to the thread as given (or
  defaulted to 0 and 75).
\<close>

lemma start_validates_nothing:
  "d_job_id data = Some jid \<Longrightarrow> jid \<noteq> [] \<Longrightarrow> active_jobs jid = Some j \<Longrightarrow> status j = ''uploaded''
   \<Longrightarrow> start_optimization data active_jobs
        = ((JobMessage jid ''Optimization started'', 200),
           active_jobs(jid \<mapsto> j\<lparr>job_params := Some (build_params data)\<rparr>),
           Some \<lparr>t_job_id = jid, t_image_path = image_path j,
                 t_material_file = material_path j, t_params = build_params data\<rparr>)
      \<and> min_layers (build_params data) = dict_get (d_min_layers data) 0
      \<and> max_layers (build_params data) = dict_get (d_max_layers data) 75"
  by (simp add: start_optimization_def build_params_def Let_def)

section \<open>The progress callback\<close>



section \<open>Cancellation inside the loop\<close>

lemma arrive_out: "out (arrive env jid i w) = out w"
  by (simp add: arrive_def)

lemma loop_halts_on_flag:
  assumes "int i < iters" and "flag_set env jid i (world s)"
  shows "opt_loop env jid iters i s
           = (Some (Exception ''Job cancelled by user''), s\<lparr>world := arrive env jid i (world s)\<rparr>)"
proof -
  from assms(2) have "iteration_body env jid iters i s
           = (Some (Exception ''Job cancelled by user''), s\<lparr>world := arrive env jid i (world s)\<rparr>)"
    by (auto simp: flag_set_def iteration_body_def Let_def dict_get_def)
  with assms(1) show ?thesis
    by (subst opt_loop.simps) simp
qed

lemma iteration_body_step:
  assumes "iteration_body env jid iters i s = (None, s1)"
  shows "\<exists>loss. step env (optimizer s) = Inr (optimizer s1, loss)"
  using assms
  by (auto simp: iteration_body_def Let_def split: option.splits if_splits sum.splits prod.splits)

text \<open>
  C2. For every iteration \<open>i\<close> below the number of iterations: if the flag reads true
  at the poll of iteration \<open>i\<close>, the loop stops there with the optimizer, and so its
  best discrete solution, as the last step left it. If the flag is set only after
  that poll, iteration \<open>i\<close> takes its one step and the loop takes no further one.
\<close>

theorem cancel_halts_within_one_iteration:
  assumes "int i < iters"
  shows "(flag_set env jid i (world s) \<longrightarrow>
            opt_loop env jid iters i s
              = (Some (Exception ''Job cancelled by user''),
                 s\<lparr>world := arrive env jid i (world s)\<rparr>)
            \<and> optimizer (snd (opt_loop env jid iters i s)) = optimizer s)
       \<and> (\<forall>s1. iteration_body env jid iters i s = (None, s1)
                 \<and> flag_set env jid (Suc i) (world s1)
            \<longrightarrow> (\<exists>loss. step env (optimizer s) = Inr (optimizer s1, loss))
                \<and> optimizer (snd (opt_loop env jid iters i s)) = optimizer s1
                \<and> out (world (snd (opt_loop env jid iters i s))) = out (world s1))"
proof (intro conjI impI allI)
  assume f: "flag_set env jid i (world s)"
  from loop_halts_on_flag [OF assms f]
  show "opt_loop env jid iters i s
              = (Some (Exception ''Job cancelled by user''),
                 s\<lparr>world := arrive env jid i (world s)\<rparr>)" .
  from loop_halts_on_flag [OF assms f]
  show "optimizer (snd (opt_loop env jid iters i s)) = optimizer s" by simp
next
  fix s1
  assume a: "iteration_body env jid iters i s = (None, s1) \<and> flag_set env jid (Suc i) (world s1)"
  then show "\<exists>loss. step env (optimizer s) = Inr (optimizer s1, loss)"
    by (blast dest: iteration_body_step)
  have unfold: "opt_loop env jid iters i s = opt_loop env jid iters (Suc i) s1"
    using assms a by (subst opt_loop.simps) simp
  have rest: "optimizer (snd (opt_loop env jid iters (Suc i) s1)) = optimizer s1
     \<and> out (world (snd (opt_loop env jid iters (Suc i) s1))) = out (world s1)"
  proof (cases "int (Suc i) < iters")
    case True
    from loop_halts_on_flag [OF True, of env jid s1] a show ?thesis by (simp add: arrive_out)
  next
    case False
    then show ?thesis by (simp add: opt_loop.simps [of env jid iters "Suc i" s1])
  qed
  from unfold rest show "optimizer (snd (opt_loop env jid iters i s)) = optimizer s1" by simp
  from unfold rest show "out (world (snd (opt_loop env jid iters i s))) = out (world s1)" by simp
qed

theorem cancel_halts_within_one_iteration_witness:
  "flag_set (demo_env (\<lambda>i. i = 1)) ''j1'' 1 (world (demo_state 1))
   \<and> opt_loop (demo_env (\<lambda>i. i = 1)) ''j1'' 3 1 (demo_state 1)
       = (Some (Exception ''Job cancelled by user''),
          (demo_state 1)\<lparr>world := arrive (demo_env (\<lambda>i. i = 1)) ''j1'' 1 (world (demo_state 1))\<rparr>)
   \<and> optimizer (snd (opt_loop (demo_env (\<lambda>i. i = 1)) ''j1'' 3 1 (demo_state 1))) = 1
   \<and> fst (iteration_body (demo_env (\<lambda>i. i = 1)) ''j1'' 3 0 (demo_state 0)) = None
   \<and> optimizer (snd (opt_loop (demo_env (\<lambda>i. i = 1)) ''j1'' 3 0 (demo_state 0))) = 1"
proof -
  let ?env = "demo_env (\<lambda>i. i = 1)"
  let ?s1 = "snd (iteration_body ?env ''j1'' 3 0 (demo_state 0))"
  have f1: "flag_set ?env ''j1'' 1 (world (demo_state 1))"
    by (simp add: flag_set_def demo_state_def run_defs demo_defs Let_def)
  have b0: "fst (iteration_body ?env ''j1'' 3 0 (demo_state 0)) = None"
    by (simp add: demo_state_def run_defs demo_defs Let_def)
  then have b1: "iteration_body ?env ''j1'' 3 0 (demo_state 0) = (None, ?s1)"
    by (metis prod.collapse)
  have o1: "optimizer ?s1 = 1"
    by (simp add: demo_state_def run_defs demo_defs Let_def)
  have f2: "flag_set ?env ''j1'' (Suc 0) (world ?s1)"
    by (simp add: flag_set_def demo_state_def run_defs demo_defs Let_def)
  have lt: "int 1 < 3" "int 0 < 3" by simp_all
  from cancel_halts_within_one_iteration [OF lt(1), of ?env "''j1''" "demo_state 1"] f1
  have p1: "opt_loop ?env ''j1'' 3 1 (demo_state 1)
       = (Some (Exception ''Job cancelled by user''),
          (demo_state 1)\<lparr>world := arrive ?env ''j1'' 1 (world (demo_state 1))\<rparr>)
     \<and> optimizer (snd (opt_loop ?env ''j1'' 3 1 (demo_state 1))) = optimizer (demo_state 1)"
    by blast
  from cancel_halts_within_one_iteration [OF lt(2), of ?env "''j1''" "demo_state 0"] b1 f2
  have p2: "optimizer (snd (opt_loop ?env ''j1'' 3 0 (demo_state 0))) = optimizer ?s1"
    by blast
  from f1 p1 b0 p2 o1 show ?thesis by (simp add: demo_state_def)
qed


section \<open>The thread as a whole: what a run leaves behind\<close>

lemma loop_from_prefix:
  "loop_prefix env jid iters k s0 = Some s \<Longrightarrow> int k \<le> iters
   \<Longrightarrow> opt_loop env jid iters 0 s0 = opt_loop env jid iters k s"
proof (induction k arbitrary: s)
  case 0
  then show ?case by simp
next
  case (Suc k)
  from Suc.prems(1) obtain s' where p: "loop_prefix env jid iters k s0 = Some s'"
    and b: "iteration_body env jid iters k s' = (None, s)"
    by (auto split: option.splits prod.splits)
  from Suc.prems(2) have lt: "int k < iters" by simp
  then have "opt_loop env jid iters 0 s0 = opt_loop env jid iters k s'"
    using Suc.IH [OF p] by simp
  also have "\<dots> = opt_loop env jid iters (Suc k) s"
    using lt b by (subst opt_loop.simps) simp
  finally show ?case .
qed

lemma arrive_outputs: "outputs_of (arrive env jid i w) jid' = outputs_of w jid'"
  by (simp add: arrive_def cancel_job_def outputs_of_def split: option.splits)

lemma update_outputs:
  "update env t cb it tot loss pv w = (r, cb', w') \<Longrightarrow> outputs_of w' jid' = outputs_of w jid'"
  by (auto simp: update_def emit_ev_def outputs_of_def Let_def
           split: if_splits sum.splits option.splits prod.splits)

lemma iteration_body_outputs:
  assumes "iteration_body env jid iters i s = (r, s')"
  shows "outputs_of (world s') jid' = outputs_of (world s) jid'"
proof -
  let ?w = "arrive env jid i (world s)"
  have a: "outputs_of ?w jid' = outputs_of (world s) jid'" by (rule arrive_outputs)
  from assms have "outputs_of (world s') jid' = outputs_of ?w jid'"
    by (auto simp: iteration_body_def Let_def dest: update_outputs
             split: option.splits if_splits sum.splits prod.splits)
  with a show ?thesis by simp
qed

lemma loop_prefix_outputs:
  "loop_prefix env jid iters k s0 = Some s
   \<Longrightarrow> outputs_of (world s) jid' = outputs_of (world s0) jid'"
proof (induction k arbitrary: s)
  case 0
  then show ?case by simp
next
  case (Suc k)
  from Suc.prems obtain s' where p: "loop_prefix env jid iters k s0 = Some s'"
    and b: "iteration_body env jid iters k s' = (None, s)"
    by (auto split: option.splits prod.splits)
  from iteration_body_outputs [OF b] Suc.IH [OF p] show ?case by simp
qed

lemma prepare_outputs:
  "prepare env jid ip mf p w0 = (r, w1) \<Longrightarrow> outputs_of w1 jid' = outputs_of w0 jid'"
  by (auto simp: prepare_def set_job_def emit_ev_def outputs_of_def
           split: option.splits sum.splits prod.splits if_splits)

lemma handler_job:
  assumes "jobs w jid = Some j"
  shows "jobs (snd (handler env jid e w)) jid
           = Some (j\<lparr>status := ''failed'', error := Some (str e)\<rparr>)"
  using assms
  by (auto simp: handler_def set_job_def emit_ev_def print_line_def Let_def
           split: option.splits)

lemma run_when_loop_raises:
  assumes "prepare env jid ip mf p w0 = (Inr (inp, opt), w1)"
    and "opt_loop env jid (iterations p) 0
           \<lparr>callback = ProgressCallback jid, optimizer = opt, world = w1\<rparr> = (Some e, s')"
  shows "run_autoforge_optimization env jid ip mf p w0 = handler env jid e (world s')"
  using assms by (simp add: run_autoforge_optimization_def try_body_def)

lemma completions_append [simp]: "completions (xs @ ys) = completions xs @ completions ys"
  by (simp add: completions_def)

lemma arrive_completions: "completions (out (arrive env jid i w)) = completions (out w)"
  by (simp add: arrive_def)

lemma update_completions:
  "update env t cb it tot loss pv w = (r, cb', w') \<Longrightarrow> completions (out w') = completions (out w)"
  by (auto simp: update_def emit_ev_def completions_def Let_def
           split: if_splits sum.splits option.splits prod.splits)

lemma iteration_body_completions:
  assumes "iteration_body env jid iters i s = (r, s')"
  shows "completions (out (world s')) = completions (out (world s))"
proof -
  let ?w = "arrive env jid i (world s)"
  have a: "completions (out ?w) = completions (out (world s))" by (rule arrive_completions)
  from assms have "completions (out (world s')) = completions (out ?w)"
    by (auto simp: iteration_body_def Let_def dest: update_completions
             split: option.splits if_splits sum.splits prod.splits)
  with a show ?thesis by simp
qed

lemma loop_prefix_completions:
  "loop_prefix env jid iters k s0 = Some s
   \<Longrightarrow> completions (out (world s)) = completions (out (world s0))"
proof (induction k arbitrary: s)
  case 0
  then show ?case by simp
next
  case (Suc k)
  from Suc.prems obtain s' where p: "loop_prefix env jid iters k s0 = Some s'"
    and b: "iteration_body env jid iters k s' = (None, s)"
    by (auto split: option.splits prod.splits)
  from iteration_body_completions [OF b] Suc.IH [OF p] show ?case by simp
qed

lemma prepare_completions:
  "prepare env jid ip mf p w0 = (r, w1) \<Longrightarrow> completions (out w1) = completions (out w0)"
  by (auto simp: prepare_def set_job_def emit_ev_def completions_def
           split: option.splits sum.splits prod.splits if_splits)

lemma handler_completions:
  "completions (out (snd (handler env jid e w))) = completions (out w)"
  by (auto simp: handler_def set_job_def emit_ev_def print_line_def completions_def Let_def
           split: option.splits)

lemma flag_set_job:
  "flag_set env jid i w \<Longrightarrow> \<exists>j. jobs (arrive env jid i w) jid = Some j"
  by (auto simp: flag_set_def)

lemma raised_in_callback_body:
  "raised_in_callback env jid iters i s e s' \<Longrightarrow> iteration_body env jid iters i s = (Some e, s')"
  by (auto simp: raised_in_callback_def iteration_body_def Let_def split: if_splits)

lemma update_keeps_job:
  "update env t cb it tot loss pv w = (r, cb', w') \<Longrightarrow> jobs w jid = Some j
   \<Longrightarrow> \<exists>j'. jobs w' jid = Some j'"
  by (auto simp: update_def emit_ev_def Let_def
           split: if_splits sum.splits option.splits prod.splits)

lemma raised_in_callback_job:
  "raised_in_callback env jid iters i s e s' \<Longrightarrow> \<exists>j. jobs (world s') jid = Some j"
  by (auto simp: raised_in_callback_def dest: update_keeps_job)

lemma raised_in_callback_step:
  "raised_in_callback env jid iters i s e s'
   \<Longrightarrow> \<exists>loss. step env (optimizer s) = Inr (optimizer s', loss)"
  by (auto simp: raised_in_callback_def)

text \<open>
  C1, as stated, fails: a run cancelled before the poll of iteration 1 ends with the
  status \<^verbatim>\<open>failed\<close>, the status endpoint reports no outputs, and the last event
  is \<^verbatim>\<open>job_failed\<close>.
\<close>

theorem cancelled_run_records_no_outputs_counterexample:
  "map_option status
      (jobs (snd (run_autoforge_optimization (demo_env (\<lambda>i. i = 1)) ''j1'' ''up/j1_a.png''
         ''up/j1_m.csv'' (build_params demo_data) demo_world)) ''j1'') = Some ''failed''
   \<and> get_status ''j1''
        (jobs (snd (run_autoforge_optimization (demo_env (\<lambda>i. i = 1)) ''j1'' ''up/j1_a.png''
           ''up/j1_m.csv'' (build_params demo_data) demo_world)))
       = (StatusBody ''j1'' ''failed'' 33 None (Some ''Job cancelled by user''), 200)
   \<and> out (snd (run_autoforge_optimization (demo_env (\<lambda>i. i = 1)) ''j1'' ''up/j1_a.png''
         ''up/j1_m.csv'' (build_params demo_data) demo_world))
       = [JobStarted ''j1'', StatusMsg ''j1'' ''Initializing height map...'',
          StatusMsg ''j1'' ''Starting optimization...'',
          Progress \<lparr>pd_job_id = ''j1'', pd_iteration = 1, pd_total_iterations = 3,
                    pd_progress = 33, pd_loss = 1,
                    pd_preview = Some ''data:image/jpeg;base64,AA==''\<rparr>,
          Print ''Error in job j1: Job cancelled by user'',
          JobFailed ''j1'' ''Job cancelled by user'']"
  by (simp add: run_defs demo_defs get_status_def Let_def)

text \<open>
  C1, amended. When the loop reads the user's cancellation at the poll of an iteration
  \<open>i\<close> below the number of iterations (the only place where the flag is read), the
  loop ends there by raising \<^verbatim>\<open>Job cancelled by user\<close>; the run goes through the
  exception handler, which records this message as the job's error. Such a run stores no
  results: the job's \<^verbatim>\<open>outputs\<close> entry is as it was when the thread started
  (absent, when it was absent then), and the run emits no \<^verbatim>\<open>job_completed\<close>
  event.
\<close>

theorem cancelled_run_records_no_outputs:
  assumes prep: "prepare env jid ip mf p w0 = (Inr (inp, opt), w1)"
    and pre: "loop_prefix env jid (iterations p) i
                \<lparr>callback = ProgressCallback jid, optimizer = opt, world = w1\<rparr> = Some s"
    and i: "int i < iterations p"
    and flag: "flag_set env jid i (world s)"
  shows "opt_loop env jid (iterations p) 0
           \<lparr>callback = ProgressCallback jid, optimizer = opt, world = w1\<rparr>
         = (Some (Exception ''Job cancelled by user''),
            s\<lparr>world := arrive env jid i (world s)\<rparr>)
       \<and> (\<exists>j'. jobs (snd (run_autoforge_optimization env jid ip mf p w0)) jid = Some j'
              \<and> error j' = Some ''Job cancelled by user''
              \<and> Some (job_outputs j') = outputs_of w0 jid
              \<and> (outputs_of w0 jid = Some None \<longrightarrow> job_outputs j' = None))
       \<and> completions (out (snd (run_autoforge_optimization env jid ip mf p w0)))
           = completions (out w0)"
proof -
  let ?start = "\<lparr>callback = ProgressCallback jid, optimizer = opt, world = w1\<rparr>"
  let ?w = "arrive env jid i (world s)"
  have "opt_loop env jid (iterations p) 0 ?start = opt_loop env jid (iterations p) i s"
    using loop_from_prefix [OF pre] i by simp
  with loop_halts_on_flag [OF i flag]
  have loop: "opt_loop env jid (iterations p) 0 ?start
         = (Some (Exception ''Job cancelled by user''), s\<lparr>world := ?w\<rparr>)"
    by simp
  from run_when_loop_raises [OF prep loop]
  have run: "run_autoforge_optimization env jid ip mf p w0
               = handler env jid (Exception ''Job cancelled by user'') ?w"
    by simp
  from flag_set_job [OF flag] obtain j where j: "jobs ?w jid = Some j" by blast
  have "outputs_of ?w jid = outputs_of w0 jid"
    using arrive_outputs [of env jid i "world s" jid] loop_prefix_outputs [OF pre, of jid]
      prepare_outputs [OF prep, of jid]
    by simp
  with j have o: "Some (job_outputs j) = outputs_of w0 jid"
    by (simp add: outputs_of_def)
  from handler_job [OF j, of env "Exception ''Job cancelled by user''"] run o
  have rec: "\<exists>j'. jobs (snd (run_autoforge_optimization env jid ip mf p w0)) jid = Some j'
              \<and> error j' = Some ''Job cancelled by user''
              \<and> Some (job_outputs j') = outputs_of w0 jid
              \<and> (outputs_of w0 jid = Some None \<longrightarrow> job_outputs j' = None)"
    by auto
  have "completions (out ?w) = completions (out w0)"
    using arrive_completions [of env jid i "world s"] loop_prefix_completions [OF pre]
      prepare_completions [OF prep]
    by simp
  with run handler_completions [of env jid "Exception ''Job cancelled by user''" ?w]
  have quiet: "completions (out (snd (run_autoforge_optimization env jid ip mf p w0)))
           = completions (out w0)"
    by simp
  from loop rec quiet show ?thesis by blast
qed

theorem cancelled_run_records_no_outputs_witness:
  "flag_set (demo_env (\<lambda>i. i = 1)) ''j1'' (Suc 0)
      (world (the (loop_prefix (demo_env (\<lambda>i. i = 1)) ''j1'' 3 (Suc 0)
         \<lparr>callback = ProgressCallback ''j1'', optimizer = 0,
          world = snd (prepare (demo_env (\<lambda>i. i = 1)) ''j1'' ''up/j1_a.png'' ''up/j1_m.csv''
                        (build_params demo_data) demo_world)\<rparr>)))
   \<and> outputs_of demo_world ''j1'' = Some None
   \<and> (\<exists>j'. jobs (snd (run_autoforge_optimization (demo_env (\<lambda>i. i = 1)) ''j1''
                 ''up/j1_a.png'' ''up/j1_m.csv'' (build_params demo_data) demo_world)) ''j1''
               = Some j'
            \<and> error j' = Some ''Job cancelled by user'' \<and> job_outputs j' = None)"
proof -
  let ?env = "demo_env (\<lambda>i. i = 1)"
  let ?p = "build_params demo_data"
  let ?pr = "prepare ?env ''j1'' ''up/j1_a.png'' ''up/j1_m.csv'' ?p demo_world"
  let ?start = "\<lparr>callback = ProgressCallback ''j1'', optimizer = 0::nat, world = snd ?pr\<rparr>"
  let ?reached = "the (loop_prefix ?env ''j1'' 3 (Suc 0) ?start)"
  have its: "iterations ?p = 3"
    by (simp add: demo_defs dict_get_def)
  have prep: "?pr = (Inr (fst (projr (fst ?pr)), 0), snd ?pr)"
    by (simp add: run_defs demo_defs Let_def)
  have "loop_prefix ?env ''j1'' 3 (Suc 0) ?start \<noteq> None"
    by (simp add: run_defs demo_defs Let_def)
  then have pre: "loop_prefix ?env ''j1'' (iterations ?p) (Suc 0) ?start = Some ?reached"
    unfolding its by auto
  have i: "int (Suc 0) < iterations ?p"
    by (simp add: its)
  have flag: "flag_set ?env ''j1'' (Suc 0) (world ?reached)"
    by (simp add: flag_set_def run_defs demo_defs Let_def)
  have none: "outputs_of demo_world ''j1'' = Some None"
    by (simp add: outputs_of_def demo_defs Let_def)
  from cancelled_run_records_no_outputs [OF prep pre i flag] none flag
  show ?thesis by auto
qed

text \<open>
  A cancellation that is served only after the last poll is not read by the run: here
  the request arrives after the poll of the third of three iterations, and the run ends
  \<^verbatim>\<open>completed\<close> with its outputs stored.
\<close>

lemma cancel_after_last_poll_example:
  "fst (run_autoforge_optimization (demo_env (\<lambda>i. i = 3)) ''j1'' ''up/j1_a.png''
          ''up/j1_m.csv'' (build_params demo_data) demo_world) = None
   \<and> get_status ''j1''
        (jobs (snd (run_autoforge_optimization (demo_env (\<lambda>i. i = 3)) ''j1'' ''up/j1_a.png''
           ''up/j1_m.csv'' (build_params demo_data) demo_world)))
       = (StatusBody ''j1'' ''completed'' 100
            (Some \<lparr>discretized_image = ''discretized.png'', stl_file = ''model.stl'',
                   swap_instructions = ''swap_instructions.txt'',
                   project_file = Some ''project.json''\<rparr>) None, 200)
   \<and> map_option cancelled
        (jobs (snd (run_autoforge_optimization (demo_env (\<lambda>i. i = 3)) ''j1'' ''up/j1_a.png''
           ''up/j1_m.csv'' (build_params demo_data) demo_world)) ''j1'') = Some (Some True)"
  by (simp add: run_defs demo_defs get_status_def Let_def)

text \<open>
  C3, as stated, fails: with an encoder that raises on the first preview, the loop ends
  after its first step with that exception and the job is marked \<^verbatim>\<open>failed\<close>;
  no progress event and no \<^verbatim>\<open>job_completed\<close> is emitted.
\<close>

theorem callback_exception_aborts_run_counterexample:
  "fst (run_autoforge_optimization demo_env_bad_encoder ''j1'' ''up/j1_a.png''
         ''up/j1_m.csv'' (build_params demo_data) demo_world) = None
   \<and> map_option status
      (jobs (snd (run_autoforge_optimization demo_env_bad_encoder ''j1'' ''up/j1_a.png''
         ''up/j1_m.csv'' (build_params demo_data) demo_world)) ''j1'') = Some ''failed''
   \<and> out (snd (run_autoforge_optimization demo_env_bad_encoder ''j1'' ''up/j1_a.png''
         ''up/j1_m.csv'' (build_params demo_data) demo_world))
       = [JobStarted ''j1'', StatusMsg ''j1'' ''Initializing height map...'',
          StatusMsg ''j1'' ''Starting optimization...'',
          Print ''Error in job j1: could not encode the preview'',
          JobFailed ''j1'' ''could not encode the preview'']
   \<and> fst (opt_loop demo_env_bad_encoder ''j1'' 3 0 (demo_state 0))
       = Some (External ''could not encode the preview'')
   \<and> optimizer (snd (opt_loop demo_env_bad_encoder ''j1'' 3 0 (demo_state 0))) = 1"
  by (simp add: run_defs demo_defs demo_env_bad_encoder_def demo_state_def Let_def)

text \<open>
  C3, amended. An exception raised inside the progress callback is not caught in the
  loop: it ends the loop at that iteration, after the step of the iteration and with
  no further step, and reaches the exception handler of the thread, which marks the job
  \<^verbatim>\<open>failed\<close> with the exception's message.
\<close>

theorem callback_exception_aborts_run:
  assumes prep: "prepare env jid ip mf p w0 = (Inr (inp, opt), w1)"
    and pre: "loop_prefix env jid (iterations p) i
                \<lparr>callback = ProgressCallback jid, optimizer = opt, world = w1\<rparr> = Some s"
    and i: "int i < iterations p"
    and raised: "raised_in_callback env jid (iterations p) i s e s'"
  shows "opt_loop env jid (iterations p) 0
           \<lparr>callback = ProgressCallback jid, optimizer = opt, world = w1\<rparr> = (Some e, s')
       \<and> (\<exists>loss. step env (optimizer s) = Inr (optimizer s', loss))
       \<and> run_autoforge_optimization env jid ip mf p w0 = handler env jid e (world s')
       \<and> (\<exists>j'. jobs (snd (run_autoforge_optimization env jid ip mf p w0)) jid = Some j'
              \<and> status j' = ''failed'' \<and> error j' = Some (str e))"
proof -
  let ?s0 = "\<lparr>callback = ProgressCallback jid, optimizer = opt, world = w1\<rparr>"
  have "opt_loop env jid (iterations p) 0 ?s0 = opt_loop env jid (iterations p) i s"
    using loop_from_prefix [OF pre] i by simp
  also have "\<dots> = (Some e, s')"
    using i raised_in_callback_body [OF raised] by (subst opt_loop.simps) simp
  finally have loop: "opt_loop env jid (iterations p) 0 ?s0 = (Some e, s')" .
  from run_when_loop_raises [OF prep loop]
  have run: "run_autoforge_optimization env jid ip mf p w0 = handler env jid e (world s')" .
  from raised_in_callback_job [OF raised] obtain j where j: "jobs (world s') jid = Some j"
    by blast
  from handler_job [OF j, of env e] run
  have "\<exists>j'. jobs (snd (run_autoforge_optimization env jid ip mf p w0)) jid = Some j'
              \<and> status j' = ''failed'' \<and> error j' = Some (str e)"
    by simp
  with loop run raised_in_callback_step [OF raised] show ?thesis by blast
qed

theorem callback_exception_aborts_run_witness:
  "raised_in_callback demo_env_bad_encoder ''j1'' 3 0
      \<lparr>callback = ProgressCallback ''j1'', optimizer = 0,
       world = snd (prepare demo_env_bad_encoder ''j1'' ''up/j1_a.png'' ''up/j1_m.csv''
                      (build_params demo_data) demo_world)\<rparr>
      (External ''could not encode the preview'')
      (snd (iteration_body demo_env_bad_encoder ''j1'' 3 0
         \<lparr>callback = ProgressCallback ''j1'', optimizer = 0,
          world = snd (prepare demo_env_bad_encoder ''j1'' ''up/j1_a.png'' ''up/j1_m.csv''
                         (build_params demo_data) demo_world)\<rparr>))
   \<and> (\<exists>j'. jobs (snd (run_autoforge_optimization demo_env_bad_encoder ''j1''
                 ''up/j1_a.png'' ''up/j1_m.csv'' (build_params demo_data) demo_world)) ''j1''
               = Some j'
            \<and> status j' = ''failed'' \<and> error j' = Some ''could not encode the preview'')"
proof -
  let ?env = "demo_env_bad_encoder"
  let ?p = "build_params demo_data"
  let ?pr = "prepare ?env ''j1'' ''up/j1_a.png'' ''up/j1_m.csv'' ?p demo_world"
  let ?start = "\<lparr>callback = ProgressCallback ''j1'', optimizer = 0::nat, world = snd ?pr\<rparr>"
  let ?after = "snd (iteration_body ?env ''j1'' 3 0 ?start)"
  have its: "iterations ?p = 3"
    by (simp add: demo_defs dict_get_def)
  have prep: "?pr = (Inr (fst (projr (fst ?pr)), 0), snd ?pr)"
    by (simp add: run_defs demo_defs demo_env_bad_encoder_def Let_def)
  have pre: "loop_prefix ?env ''j1'' (iterations ?p) 0 ?start = Some ?start"
    by simp
  have i: "int 0 < iterations ?p"
    by (simp add: its)
  have raised: "raised_in_callback ?env ''j1'' (iterations ?p) 0 ?start
                  (External ''could not encode the preview'') ?after"
    unfolding its
    by (simp add: raised_in_callback_def run_defs demo_defs demo_env_bad_encoder_def Let_def)
  from callback_exception_aborts_run [OF prep pre i raised] raised
  show ?thesis unfolding its by auto
qed


section \<open>A configuration the core rejects\<close>


lemma prepare_missing_job:
  "jobs w0 jid = None \<Longrightarrow> prepare env jid ip mf p w0 = (Inl (KeyError jid), w0)"
  by (simp add: prepare_def set_job_def)


lemma with_config_check_fields [simp]:
  "emit (with_config_check env) = emit env"
  "cuda_is_available (with_config_check env) = cuda_is_available env"
  "load_materials_csv (with_config_check env) = load_materials_csv env"
  "load_materials_json (with_config_check env) = load_materials_json env"
  "imread (with_config_check env) = imread env"
  "resize_image (with_config_check env) = resize_image env"
  "hex_to_rgb (with_config_check env) = hex_to_rgb env"
  "run_init_threads (with_config_check env) = run_init_threads env"
  "PerceptionLoss (with_config_check env) = PerceptionLoss env"
  by (simp_all add: with_config_check_def)

lemma load_inputs_with_config_check [simp]:
  "load_inputs (with_config_check env) ip mf p = load_inputs env ip mf p"
  by (simp add: load_inputs_def select_device_def Let_def cong: sum.case_cong if_cong)







section \<open>Device selection and the inputs of the core\<close>

lemma load_inputs_fields:
  assumes "load_inputs env ip mf p = Inr inp"
  shows "in_device inp = select_device env"
    and "material_colors inp = map div255 (colors (in_materials inp))"
    and "material_TDs inp = TDs (in_materials inp)"
    and "target_tensor inp = div255 (target_image inp)"
    and "background_tensor inp = div255 (background_rgb inp)"
    and "processing_reduction_factor p \<noteq> 0"
    and "processing_size inp = stl_output_size p div processing_reduction_factor p"
    and "\<exists>img. imread env ip = Inr img
           \<and> resize_image env img (processing_size inp) (processing_size inp)
               = Inr (target_image inp)"
    and "hex_to_rgb env (background_color p) = Inr (background_rgb inp)"
  using assms
  by (auto simp: load_inputs_def floordiv_def Let_def split: sum.splits if_splits)

lemma div255_unit: "byte_range xs \<Longrightarrow> unit_range (div255 xs)"
  by (auto simp: byte_range_def unit_range_def div255_def list_all_iff)

lemma times255_div255: "map (\<lambda>x. x * 255) (div255 xs) = xs"
  by (simp add: div255_def o_def)

lemma prepare_trace:
  assumes "prepare env jid ip mf p w0 = (Inr (inp, opt), w1)"
  shows "load_inputs env ip mf p = Inr inp"
    and "\<exists>ini. run_init_threads env (make_init_args inp p) = Inr ini
            \<and> FilamentOptimizer env (make_optimizer_args inp ini p) = Inr opt"
    and "PerceptionLoss env (in_device inp) = None"
    and "out w1 = out w0 @ [JobStarted jid, StatusMsg jid ''Initializing height map...'',
                           StatusMsg jid ''Starting optimization...'']"
  using assms
  by (auto simp: prepare_def set_job_def emit_ev_def
           split: option.splits sum.splits prod.splits if_splits)

text \<open>
  C5, as stated, fails in its warning: with CUDA unavailable a whole run, here one that
  ends \<^verbatim>\<open>completed\<close>, emits the events below and prints nothing.
\<close>

theorem cpu_fallback_is_silent_counterexample:
  "\<not> cuda_is_available (demo_env (\<lambda>i. False))
   \<and> fst (run_autoforge_optimization (demo_env (\<lambda>i. False)) ''j1'' ''up/j1_a.png''
            ''up/j1_m.csv'' (build_params demo_data) demo_world) = None
   \<and> out (snd (run_autoforge_optimization (demo_env (\<lambda>i. False)) ''j1'' ''up/j1_a.png''
            ''up/j1_m.csv'' (build_params demo_data) demo_world))
       = [JobStarted ''j1'', StatusMsg ''j1'' ''Initializing height map...'',
          StatusMsg ''j1'' ''Starting optimization...'',
          Progress \<lparr>pd_job_id = ''j1'', pd_iteration = 1, pd_total_iterations = 3,
                    pd_progress = 33, pd_loss = 1,
                    pd_preview = Some ''data:image/jpeg;base64,AA==''\<rparr>,
          Progress \<lparr>pd_job_id = ''j1'', pd_iteration = 2, pd_total_iterations = 3,
                    pd_progress = 66, pd_loss = 1 / 2, pd_preview = None\<rparr>,
          Progress \<lparr>pd_job_id = ''j1'', pd_iteration = 3, pd_total_iterations = 3,
                    pd_progress = 100, pd_loss = 1 / 3,
                    pd_preview = Some ''data:image/jpeg;base64,AA==''\<rparr>,
          StatusMsg ''j1'' ''Generating outputs...'',
          StatusMsg ''j1'' ''Generating STL file...'',
          JobCompleted ''j1'' \<lparr>discretized_image = ''discretized.png'',
             stl_file = ''model.stl'', swap_instructions = ''swap_instructions.txt'',
             project_file = Some ''project.json''\<rparr>]
   \<and> printed (out (snd (run_autoforge_optimization (demo_env (\<lambda>i. False)) ''j1''
            ''up/j1_a.png'' ''up/j1_m.csv'' (build_params demo_data) demo_world))) = []"
  by (simp add: run_defs demo_defs printed_def Let_def)

text \<open>
  C5, amended. When CUDA is unavailable, device selection gives the CPU and cannot
  fail; the tensors, the perception loss and the optimizer are created on that device.
  Nothing is logged about the fallback: up to the construction of the optimizer the
  thread emits \<^verbatim>\<open>job_started\<close> and its two status messages and prints nothing.
\<close>

theorem cpu_fallback_is_silent:
  assumes "\<not> cuda_is_available env"
  shows "select_device env = Cpu
       \<and> (\<forall>inp. load_inputs env ip mf p = Inr inp \<longrightarrow> in_device inp = Cpu)
       \<and> (\<forall>inp opt w1. prepare env jid ip mf p w0 = (Inr (inp, opt), w1) \<longrightarrow>
             PerceptionLoss env Cpu = None
             \<and> (\<exists>ini. FilamentOptimizer env (make_optimizer_args inp ini p) = Inr opt
                    \<and> oa_device (make_optimizer_args inp ini p) = Cpu)
             \<and> out w1 = out w0 @ [JobStarted jid, StatusMsg jid ''Initializing height map...'',
                                    StatusMsg jid ''Starting optimization...'']
             \<and> printed (out w1) = printed (out w0))"
proof (intro conjI allI impI)
  show d: "select_device env = Cpu" using assms by (simp add: select_device_def)
  show "in_device inp = Cpu" if "load_inputs env ip mf p = Inr inp" for inp
    using load_inputs_fields(1) [OF that] d by simp
next
  fix inp opt w1
  assume pr: "prepare env jid ip mf p w0 = (Inr (inp, opt), w1)"
  have d: "in_device inp = Cpu"
    using load_inputs_fields(1) [OF prepare_trace(1) [OF pr]] assms
    by (simp add: select_device_def)
  from prepare_trace(3) [OF pr] d show "PerceptionLoss env Cpu = None" by simp
  from prepare_trace(2) [OF pr] d
  show "\<exists>ini. FilamentOptimizer env (make_optimizer_args inp ini p) = Inr opt
                    \<and> oa_device (make_optimizer_args inp ini p) = Cpu"
    by (auto simp: make_optimizer_args_def)
  from prepare_trace(4) [OF pr]
  show "out w1 = out w0 @ [JobStarted jid, StatusMsg jid ''Initializing height map...'',
                                    StatusMsg jid ''Starting optimization...'']" .
  from prepare_trace(4) [OF pr] show "printed (out w1) = printed (out w0)"
    by (simp add: printed_def)
qed

theorem cpu_fallback_is_silent_witness:
  "\<not> cuda_is_available (demo_env (\<lambda>i. False))
   \<and> select_device (demo_env (\<lambda>i. False)) = Cpu
   \<and> out (snd (prepare (demo_env (\<lambda>i. False)) ''j1'' ''up/j1_a.png'' ''up/j1_m.csv''
                  (build_params demo_data) demo_world))
       = [JobStarted ''j1'', StatusMsg ''j1'' ''Initializing height map...'',
          StatusMsg ''j1'' ''Starting optimization...'']"
proof -
  let ?env = "demo_env (\<lambda>i. False)"
  let ?pr = "prepare ?env ''j1'' ''up/j1_a.png'' ''up/j1_m.csv'' (build_params demo_data) demo_world"
  have c: "\<not> cuda_is_available ?env" by (simp add: demo_env_def)
  have prep: "?pr = (Inr (fst (projr (fst ?pr)), 0), snd ?pr)"
    by (simp add: run_defs demo_defs Let_def)
  have o: "out demo_world = []" by (simp add: demo_world_def)
  from cpu_fallback_is_silent [OF c, of "''up/j1_a.png''" "''up/j1_m.csv''"
         "build_params demo_data" "''j1''" demo_world] prep c o
  show ?thesis by (metis append_Nil)
qed

text \<open>
  C6, as stated, fails for the height-map initializer, which the specification counts
  as part of the core: it is called with the resized image as read and with the
  material colors multiplied back by 255, so with values outside [0,1].
\<close>

theorem core_inputs_scaled_counterexample:
  "load_inputs (demo_env (\<lambda>i. False)) ''up/j1_a.png'' ''up/j1_m.csv'' (build_params demo_data)
     = Inr (projr (load_inputs (demo_env (\<lambda>i. False)) ''up/j1_a.png'' ''up/j1_m.csv''
                     (build_params demo_data)))
   \<and> ia_material_colors
        (make_init_args
           (projr (load_inputs (demo_env (\<lambda>i. False)) ''up/j1_a.png'' ''up/j1_m.csv''
                     (build_params demo_data)))
           (build_params demo_data))
       = [[255, 0, 0], [0, 51, 102]]
   \<and> ia_target
        (make_init_args
           (projr (load_inputs (demo_env (\<lambda>i. False)) ''up/j1_a.png'' ''up/j1_m.csv''
                     (build_params demo_data)))
           (build_params demo_data))
       = [0, 51, 255, 102]
   \<and> \<not> unit_range
          (ia_target
             (make_init_args
                (projr (load_inputs (demo_env (\<lambda>i. False)) ''up/j1_a.png'' ''up/j1_m.csv''
                          (build_params demo_data)))
                (build_params demo_data)))
   \<and> \<not> list_all unit_range
          (ia_material_colors
             (make_init_args
                (projr (load_inputs (demo_env (\<lambda>i. False)) ''up/j1_a.png'' ''up/j1_m.csv''
                          (build_params demo_data)))
                (build_params demo_data)))"
  by (simp add: run_defs demo_defs unit_range_def Let_def)

text \<open>
  C6, amended. The processing size is \<open>stl_output_size\<close> floor-divided by
  \<open>processing_reduction_factor\<close> (which is not 0 when loading succeeds), and the
  image is resized to it by a call outside the core. For colors, pixels and background
  on the 0 to 255 scale, the \<^verbatim>\<open>FilamentOptimizer\<close> receives each of them divided
  by 255, so in [0,1]. The height-map initializer receives the resized image, the
  material colors and the background color on the 0 to 255 scale.
\<close>

theorem core_inputs_scaled:
  assumes loaded: "load_inputs env ip mf p = Inr inp"
    and colours: "list_all byte_range (colors (in_materials inp))"
    and pixels: "byte_range (target_image inp)"
    and ground: "byte_range (background_rgb inp)"
  shows "processing_reduction_factor p \<noteq> 0
       \<and> processing_size inp = stl_output_size p div processing_reduction_factor p
       \<and> (\<exists>img. imread env ip = Inr img
              \<and> resize_image env img (processing_size inp) (processing_size inp)
                  = Inr (target_image inp))
       \<and> oa_material_colors (make_optimizer_args inp ini p)
           = map (map (\<lambda>x. x / 255)) (colors (in_materials inp))
       \<and> list_all unit_range (oa_material_colors (make_optimizer_args inp ini p))
       \<and> oa_target (make_optimizer_args inp ini p) = map (\<lambda>x. x / 255) (target_image inp)
       \<and> unit_range (oa_target (make_optimizer_args inp ini p))
       \<and> oa_background (make_optimizer_args inp ini p)
           = map (\<lambda>x. x / 255) (background_rgb inp)
       \<and> unit_range (oa_background (make_optimizer_args inp ini p))
       \<and> ia_material_colors (make_init_args inp p) = colors (in_materials inp)
       \<and> ia_target (make_init_args inp p) = target_image inp
       \<and> ia_background (make_init_args inp p) = background_rgb inp"
proof -
  note f = load_inputs_fields [OF loaded]
  have c1: "oa_material_colors (make_optimizer_args inp ini p)
              = map (map (\<lambda>x. x / 255)) (colors (in_materials inp))"
    using f(2) by (simp add: make_optimizer_args_def div255_def [abs_def])
  have c2: "list_all unit_range (oa_material_colors (make_optimizer_args inp ini p))"
    using f(2) colours by (auto simp: make_optimizer_args_def list_all_iff intro: div255_unit)
  have t1: "oa_target (make_optimizer_args inp ini p) = map (\<lambda>x. x / 255) (target_image inp)"
    using f(4) by (simp add: make_optimizer_args_def div255_def)
  have t2: "unit_range (oa_target (make_optimizer_args inp ini p))"
    using f(4) pixels by (simp add: make_optimizer_args_def div255_unit)
  have b1: "oa_background (make_optimizer_args inp ini p)
              = map (\<lambda>x. x / 255) (background_rgb inp)"
    using f(5) by (simp add: make_optimizer_args_def div255_def)
  have b2: "unit_range (oa_background (make_optimizer_args inp ini p))"
    using f(5) ground by (simp add: make_optimizer_args_def div255_unit)
  have i1: "ia_material_colors (make_init_args inp p) = colors (in_materials inp)"
    using f(2) by (simp add: make_init_args_def times255_div255 o_def)
  have i2: "ia_target (make_init_args inp p) = target_image inp"
    and i3: "ia_background (make_init_args inp p) = background_rgb inp"
    by (simp_all add: make_init_args_def)
  from f(6) f(7) f(8) c1 c2 t1 t2 b1 b2 i1 i2 i3 show ?thesis by blast
qed

theorem core_inputs_scaled_witness:
  "list_all byte_range (colors demo_materials)
   \<and> oa_material_colors
        (make_optimizer_args
           (projr (load_inputs (demo_env (\<lambda>i. False)) ''up/j1_a.png'' ''up/j1_m.csv''
                     (build_params demo_data)))
           \<lparr>pixel_height_logits_init = [], pixel_height_labels = [], global_logits_init = []\<rparr>
           (build_params demo_data))
       = [[1, 0, 0], [0, 1 / 5, 2 / 5]]
   \<and> oa_target
        (make_optimizer_args
           (projr (load_inputs (demo_env (\<lambda>i. False)) ''up/j1_a.png'' ''up/j1_m.csv''
                     (build_params demo_data)))
           \<lparr>pixel_height_logits_init = [], pixel_height_labels = [], global_logits_init = []\<rparr>
           (build_params demo_data))
       = [0, 1 / 5, 1, 2 / 5]
   \<and> processing_size
        (projr (load_inputs (demo_env (\<lambda>i. False)) ''up/j1_a.png'' ''up/j1_m.csv''
                  (build_params demo_data))) = 2"
proof -
  let ?env = "demo_env (\<lambda>i. False)"
  let ?p = "build_params demo_data"
  let ?l = "load_inputs ?env ''up/j1_a.png'' ''up/j1_m.csv'' ?p"
  let ?inp = "projr ?l"
  let ?ini = "\<lparr>pixel_height_logits_init = [], pixel_height_labels = [],
               global_logits_init = []\<rparr>"
  have loaded: "?l = Inr ?inp"
    by (simp add: run_defs demo_defs Let_def)
  have m: "in_materials ?inp = demo_materials"
    by (simp add: run_defs demo_defs Let_def)
  have colours: "list_all byte_range (colors (in_materials ?inp))"
    unfolding m by (simp add: demo_materials_def byte_range_def)
  have pixels: "byte_range (target_image ?inp)"
    by (simp add: run_defs demo_defs byte_range_def Let_def)
  have ground: "byte_range (background_rgb ?inp)"
    by (simp add: run_defs demo_defs byte_range_def Let_def)
  have vals: "map (map (\<lambda>x. x / 255)) (colors (in_materials ?inp))
                = [[1, 0, 0], [0, 1 / 5, 2 / 5 :: real]]"
    "map (\<lambda>x. x / 255) (target_image ?inp) = [0, 1 / 5, 1, 2 / 5 :: real]"
    "stl_output_size ?p div processing_reduction_factor ?p = 2"
    unfolding m by (simp_all add: run_defs demo_defs Let_def)
  from core_inputs_scaled [OF loaded colours pixels ground, of ?ini] colours vals m
  show ?thesis by simp
qed


end
